theory Spec2Isabelle
  imports Complex_Main
begin

section \<open>Python values and builtins used by the controllers\<close>

text \<open>
  The cgroup controllers of \<^verbatim>\<open>granulate_utils/linux/cgroups\<close> read and write small text
  files. Python's unbounded integers are \<^typ>\<open>int\<close> and its strings are \<^typ>\<open>string\<close>. A
  float that the code receives or computes with is a binary64 value, \<open>float64\<close>: its
  products are rounded to nearest, ties to even, and overflow to an infinity. The quotient
  \<^verbatim>\<open>quota / period\<close> that the code returns is kept as the exact rational (\<^typ>\<open>rat\<close>); its
  rounding and overflow, and the limit newer interpreters put on the length of a decimal
  conversion, are outside this model. Every exception the code can raise is a value of \<open>error\<close>, and a
  computation that may raise returns \<open>error + 'a\<close> with \<open>Inl\<close> for the exception.
\<close>

datatype error =
    FileNotFoundError
  | ValueError
  | IndexError
  | ZeroDivisionError
  | OverflowError
  | AssertionError string
  | CgroupInterfaceNotSupported string

fun and_then :: "error + 'a \<Rightarrow> ('a \<Rightarrow> error + 'b) \<Rightarrow> error + 'b" where
  "and_then (Inl e) f = Inl e"
| "and_then (Inr x) f = f x"

definition is_space :: "char \<Rightarrow> bool" where
  \<comment> \<open>\<^verbatim>\<open>str.isspace\<close> on the ASCII range: TAB, LF, VT, FF, CR, FS, GS, RS, US, SPACE.\<close>
  "is_space c = (let n = (of_char c :: nat) in (9 \<le> n \<and> n \<le> 13) \<or> (28 \<le> n \<and> n \<le> 32))"

definition is_digit :: "char \<Rightarrow> bool" where
  "is_digit c = (let n = (of_char c :: nat) in 48 \<le> n \<and> n \<le> 57)"

definition digit_val :: "char \<Rightarrow> nat" where
  "digit_val c = of_char c - 48"

definition digit_char :: "nat \<Rightarrow> char" where
  "digit_char d = char_of (48 + d)"

definition strip :: "string \<Rightarrow> string" where
  \<comment> \<open>\<^verbatim>\<open>str.strip()\<close>: leading and trailing whitespace removed.\<close>
  "strip s = rev (dropWhile is_space (rev (dropWhile is_space s)))"

fun split_from :: "string \<Rightarrow> string \<Rightarrow> string list" where
  "split_from cur [] = (if cur = [] then [] else [cur])"
| "split_from cur (c # cs) =
     (if is_space c then (if cur = [] then split_from [] cs else cur # split_from [] cs)
      else split_from (cur @ [c]) cs)"

definition split :: "string \<Rightarrow> string list" where
  \<comment> \<open>\<^verbatim>\<open>str.split()\<close> without arguments: the maximal runs of non-whitespace characters.\<close>
  "split s = split_from [] s"

definition getitem :: "'a list \<Rightarrow> nat \<Rightarrow> error + 'a" where
  \<comment> \<open>\<^verbatim>\<open>xs[i]\<close> for a non-negative literal index.\<close>
  "getitem xs i = (if i < length xs then Inr (xs ! i) else Inl IndexError)"

fun str_nat :: "nat \<Rightarrow> string" where
  "str_nat n = (if n < 10 then [digit_char n] else str_nat (n div 10) @ [digit_char (n mod 10)])"

declare str_nat.simps [simp del]

definition str_int :: "int \<Rightarrow> string" where
  \<comment> \<open>\<^verbatim>\<open>str(i)\<close> for an integer: decimal digits, with a leading minus sign below zero.\<close>
  "str_int i = (if i < 0 then CHR ''-'' # str_nat (nat (- i)) else str_nat (nat i))"

fun digits_ok :: "string \<Rightarrow> bool" where
  \<comment> \<open>digit groups separated by single underscores, as \<^verbatim>\<open>int()\<close> accepts them\<close>
  "digits_ok [] = False"
| "digits_ok [c] = is_digit c"
| "digits_ok (c # d # cs) =
     (is_digit c \<and> (if d = CHR ''_'' then digits_ok cs else digits_ok (d # cs)))"

definition digits_value :: "string \<Rightarrow> nat" where
  "digits_value ds = foldl (\<lambda>a c. 10 * a + digit_val c) 0 (filter (\<lambda>c. c \<noteq> CHR ''_'') ds)"

definition int_of_str :: "string \<Rightarrow> error + int" where
  \<comment> \<open>\<^verbatim>\<open>int(s)\<close> for a string, base 10: surrounding whitespace is ignored, one sign is
      allowed, anything else that is not a decimal literal raises \<^verbatim>\<open>ValueError\<close>.\<close>
  "int_of_str s =
     (case strip s of
        [] \<Rightarrow> Inl ValueError
      | c # cs \<Rightarrow>
          if c = CHR ''-'' then
            (if digits_ok cs then Inr (- int (digits_value cs)) else Inl ValueError)
          else if c = CHR ''+'' then
            (if digits_ok cs then Inr (int (digits_value cs)) else Inl ValueError)
          else
            (if digits_ok (c # cs) then Inr (int (digits_value (c # cs))) else Inl ValueError))"

datatype float64 = Finite rat | PosInf | NegInf | NaN

function bit_length :: "int \<Rightarrow> int" where
  \<comment> \<open>the number of binary digits of a positive integer\<close>
  "bit_length n = (if n \<le> 0 then 0 else 1 + bit_length (n div 2))"
  by pat_completeness auto
termination
  by (relation "measure nat") auto

declare bit_length.simps [simp del]

definition pow2 :: "int \<Rightarrow> rat" where
  "pow2 d = (if 0 \<le> d then 2 ^ nat d else 1 / 2 ^ nat (- d))"

definition floor_log2 :: "rat \<Rightarrow> int" where
  \<comment> \<open>for \<open>0 < x\<close>, the \<open>e\<close> with \<open>2\<^sup>e \<le> x < 2\<^sup>e\<^sup>+\<^sup>1\<close>\<close>
  "floor_log2 x =
     (if 1 \<le> x then bit_length \<lfloor>x\<rfloor> - 1 else - bit_length (\<lceil>1 / x\<rceil> - 1))"

definition round_half_even :: "rat \<Rightarrow> int" where
  "round_half_even q =
     (let f = \<lfloor>q\<rfloor>; d = q - of_int f
      in if d < 1 / 2 then f else if 1 / 2 < d then f + 1 else if even f then f else f + 1)"

definition round64 :: "rat \<Rightarrow> rat" where
  \<comment> \<open>The nearest multiple of the binary64 spacing at \<open>x\<close>: 53 significant bits, the
      least exponent -1022 (below it the spacing stays \<open>2\<^sup>-\<^sup>1\<^sup>0\<^sup>7\<^sup>4\<close>), ties to even.\<close>
  "round64 x =
     (if x = 0 then 0
      else let e = max (floor_log2 \<bar>x\<bar>) (- 1022); u = pow2 (e - 52)
           in of_int (round_half_even (x / u)) * u)"

definition to_float64 :: "rat \<Rightarrow> float64" where
  \<comment> \<open>The binary64 value of an exact result, also of a decimal literal: rounded, and an
      infinity from \<open>2\<^sup>1\<^sup>0\<^sup>2\<^sup>4\<close> on.\<close>
  "to_float64 x =
     (let r = round64 x
      in if pow2 1024 \<le> r then PosInf else if r \<le> - pow2 1024 then NegInf else Finite r)"

definition float_of_int :: "int \<Rightarrow> error + float64" where
  \<comment> \<open>The conversion of the integer operand of \<^verbatim>\<open>int * float\<close>: rounded to the nearest
      binary64 value, \<^verbatim>\<open>OverflowError\<close> when that is out of range.\<close>
  "float_of_int i =
     (case to_float64 (of_int i) of Finite r \<Rightarrow> Inr (Finite r) | _ \<Rightarrow> Inl OverflowError)"

fun is_negative :: "float64 \<Rightarrow> bool" where
  "is_negative (Finite a) = (a < 0)"
| "is_negative NegInf = True"
| "is_negative PosInf = False"
| "is_negative NaN = False"

fun float_mul :: "float64 \<Rightarrow> float64 \<Rightarrow> float64" where
  \<comment> \<open>\<^verbatim>\<open>x * y\<close> on two floats. Both zeros are \<open>Finite 0\<close>: their sign does not reach
      \<^verbatim>\<open>int()\<close>.\<close>
  "float_mul (Finite a) (Finite b) = to_float64 (a * b)"
| "float_mul x y =
     (if x = NaN \<or> y = NaN \<or> x = Finite 0 \<or> y = Finite 0 then NaN
      else if is_negative x \<noteq> is_negative y then NegInf else PosInf)"

fun int_of_float :: "float64 \<Rightarrow> error + int" where
  \<comment> \<open>\<^verbatim>\<open>int(x)\<close> for a float: the fractional part is dropped, towards zero; an infinity
      raises \<^verbatim>\<open>OverflowError\<close> and a NaN \<^verbatim>\<open>ValueError\<close>.\<close>
  "int_of_float (Finite x) = Inr (if 0 \<le> x then \<lfloor>x\<rfloor> else \<lceil>x\<rceil>)"
| "int_of_float PosInf = Inl OverflowError"
| "int_of_float NegInf = Inl OverflowError"
| "int_of_float NaN = Inl ValueError"

definition truediv :: "int \<Rightarrow> int \<Rightarrow> error + rat" where
  \<comment> \<open>\<^verbatim>\<open>a / b\<close> on two integers.\<close>
  "truediv a b = (if b = 0 then Inl ZeroDivisionError else Inr (of_int a / of_int b))"


section \<open>The cgroup core\<close>

text \<open>
  The file system is the only state: a partial map from paths to file contents and the
  set of directories. A path is the list of its components; \<open>p @ [name]\<close> is
  \<^verbatim>\<open>p / name\<close>. An operation that writes returns its outcome together with the file system
  it leaves behind, so that what a failed call has written is part of its result.
\<close>

type_synonym path = "string list"

record filesystem =
  files :: "path \<rightharpoonup> string"
  dirs :: "path set"

type_synonym 'a effect = "(error + 'a) \<times> filesystem"

datatype CgroupCore =
    CgroupCoreV1 path
  | CgroupCoreV2 path path

fun cgroup_full_path :: "CgroupCore \<Rightarrow> path" where
  "cgroup_full_path (CgroupCoreV1 p) = p"
| "cgroup_full_path (CgroupCoreV2 p root_path) = p"

fun is_v1 :: "CgroupCore \<Rightarrow> bool" where
  "is_v1 (CgroupCoreV1 p) = True"
| "is_v1 (CgroupCoreV2 p root_path) = False"

definition read_text :: "filesystem \<Rightarrow> path \<Rightarrow> error + string" where
  "read_text fs p = (case files fs p of None \<Rightarrow> Inl FileNotFoundError | Some s \<Rightarrow> Inr s)"

definition write_text :: "filesystem \<Rightarrow> path \<Rightarrow> string \<Rightarrow> filesystem" where
  "write_text fs p s = fs\<lparr>files := (files fs)(p \<mapsto> s)\<rparr>"

definition read_from_interface_file :: "CgroupCore \<Rightarrow> filesystem \<Rightarrow> string \<Rightarrow> error + string" where
  \<comment> \<open>Modelled from the spec: \<^verbatim>\<open>cgroup.py\<close> is not among the sources. Raw text input from
      \<^verbatim>\<open>full_path/name\<close>; a missing file is an I/O failure that propagates.\<close>
  "read_from_interface_file cg fs name = read_text fs (cgroup_full_path cg @ [name])"

definition write_to_interface_file :: "CgroupCore \<Rightarrow> string \<Rightarrow> string \<Rightarrow> filesystem \<Rightarrow> unit effect" where
  \<comment> \<open>Modelled from the spec: \<^verbatim>\<open>cgroup.py\<close> is not among the sources. Raw text output to
      \<^verbatim>\<open>full_path/name\<close>, overwriting, on plain files as in the tests; a kernel that
      rejects the value is outside this model.\<close>
  "write_to_interface_file cg name v fs = (Inr (), write_text fs (cgroup_full_path cg @ [name]) v)"

definition convert_inner_value_to_outer :: "string \<Rightarrow> error + int" where
  \<comment> \<open>Modelled from the spec: \<^verbatim>\<open>CgroupCoreV2.convert_inner_value_to_outer\<close> is not among
      the sources. The literal \<^verbatim>\<open>max\<close> is -1, anything else is read as an integer.\<close>
  "convert_inner_value_to_outer val = (if val = ''max'' then Inr (- 1) else int_of_str val)"

definition convert_outer_value_to_inner :: "int \<Rightarrow> string" where
  \<comment> \<open>Modelled from the spec: \<^verbatim>\<open>CgroupCoreV2.convert_outer_value_to_inner\<close> is not among
      the sources. -1 is the literal \<^verbatim>\<open>max\<close>, any other integer is printed;
      \<^verbatim>\<open>test_cpu_controller_v2\<close> expects \<^verbatim>\<open>350 100\<close> and \<^verbatim>\<open>max 100\<close> in \<^verbatim>\<open>cpu.max\<close>.\<close>
  "convert_outer_value_to_inner val = (if val = - 1 then ''max'' else str_int val)"

definition inner_round_trip :: "string \<Rightarrow> error + string" where
  \<comment> \<open>The round trip of the spec, \<^verbatim>\<open>convert_outer_value_to_inner(convert_inner_value_to_outer(x))\<close>.\<close>
  "inner_round_trip x =
     and_then (convert_inner_value_to_outer x) (\<lambda>v. Inr (convert_outer_value_to_inner v))"


section \<open>The CPU controller\<close>

record CpuLimitParams =
  period :: int
  quota :: int

datatype CpuController =
    CpuControllerV1 CgroupCore
  | CpuControllerV2 CgroupCore

definition CPU_PERIOD_FILE :: string where "CPU_PERIOD_FILE = ''cpu.cfs_period_us''"
definition CPU_QUOTA_FILE :: string where "CPU_QUOTA_FILE = ''cpu.cfs_quota_us''"
definition CPU_LIMIT_FILE :: string where "CPU_LIMIT_FILE = ''cpu.max''"

definition get_cpu_controller :: "CgroupCore \<Rightarrow> CpuController" where
  "get_cpu_controller cgroup_core =
     (if is_v1 cgroup_core then CpuControllerV1 cgroup_core else CpuControllerV2 cgroup_core)"

fun get_cpu_limit_params :: "CpuController \<Rightarrow> filesystem \<Rightarrow> error + CpuLimitParams" where
  "get_cpu_limit_params (CpuControllerV1 cg) fs =
     and_then (and_then (read_from_interface_file cg fs CPU_PERIOD_FILE) int_of_str) (\<lambda>p.
     and_then (and_then (read_from_interface_file cg fs CPU_QUOTA_FILE) int_of_str) (\<lambda>q.
     Inr \<lparr>period = p, quota = q\<rparr>))"
| "get_cpu_limit_params (CpuControllerV2 cg) fs =
     and_then (read_from_interface_file cg fs CPU_LIMIT_FILE) (\<lambda>text.
     let cpu_limit = split text in
     and_then (and_then (getitem cpu_limit 1) int_of_str) (\<lambda>p.
     and_then (and_then (getitem cpu_limit 0) convert_inner_value_to_outer) (\<lambda>q.
     Inr \<lparr>period = p, quota = q\<rparr>)))"

fun get_cpu_limit_period :: "CpuController \<Rightarrow> filesystem \<Rightarrow> error + int" where
  "get_cpu_limit_period (CpuControllerV1 cg) fs =
     and_then (read_from_interface_file cg fs CPU_PERIOD_FILE) int_of_str"
| "get_cpu_limit_period (CpuControllerV2 cg) fs =
     and_then (get_cpu_limit_params (CpuControllerV2 cg) fs) (\<lambda>ps. Inr (period ps))"

fun get_cpu_limit_quota :: "CpuController \<Rightarrow> filesystem \<Rightarrow> error + int" where
  "get_cpu_limit_quota (CpuControllerV1 cg) fs =
     and_then (read_from_interface_file cg fs CPU_QUOTA_FILE) int_of_str"
| "get_cpu_limit_quota (CpuControllerV2 cg) fs =
     and_then (get_cpu_limit_params (CpuControllerV2 cg) fs) (\<lambda>ps. Inr (quota ps))"

fun set_cpu_limit_quota :: "CpuController \<Rightarrow> int \<Rightarrow> filesystem \<Rightarrow> unit effect" where
  "set_cpu_limit_quota (CpuControllerV1 cg) q fs =
     write_to_interface_file cg CPU_QUOTA_FILE (str_int q) fs"
| "set_cpu_limit_quota (CpuControllerV2 cg) q fs =
     (case get_cpu_limit_period (CpuControllerV2 cg) fs of
        Inl e \<Rightarrow> (Inl e, fs)
      | Inr p \<Rightarrow>
          let quota_str = convert_outer_value_to_inner q
          in write_to_interface_file cg CPU_LIMIT_FILE (quota_str @ '' '' @ str_int p) fs)"

definition set_cpu_limit_cores :: "CpuController \<Rightarrow> float64 \<Rightarrow> filesystem \<Rightarrow> unit effect" where
  \<comment> \<open>\<^verbatim>\<open>int(period * cores)\<close>: the period becomes a float, the product is the binary64
      one, and \<^verbatim>\<open>int()\<close> truncates it; each step can raise before anything is written.\<close>
  "set_cpu_limit_cores c cores fs =
     (case get_cpu_limit_period c fs of
        Inl e \<Rightarrow> (Inl e, fs)
      | Inr p \<Rightarrow>
          (case and_then (float_of_int p) (\<lambda>fp. int_of_float (float_mul fp cores)) of
             Inl e \<Rightarrow> (Inl e, fs)
           | Inr q \<Rightarrow> set_cpu_limit_quota c q fs))"

definition get_cpu_limit_cores :: "CpuController \<Rightarrow> filesystem \<Rightarrow> error + rat" where
  "get_cpu_limit_cores c fs =
     and_then (get_cpu_limit_params c fs) (\<lambda>cpu_limit_params.
       if quota cpu_limit_params \<noteq> - 1
       then truediv (quota cpu_limit_params) (period cpu_limit_params)
       else Inr (- 1))"

definition reset_cpu_limit :: "CpuController \<Rightarrow> filesystem \<Rightarrow> unit effect" where
  "reset_cpu_limit c fs = set_cpu_limit_quota c (- 1) fs"


section \<open>Sub-cgroups of the unified hierarchy\<close>

definition CGROUP_CONTROLLERS_FILE :: string where "CGROUP_CONTROLLERS_FILE = ''cgroup.controllers''"
definition CGROUP_SUBTREE_CONTROL_FILE :: string where "CGROUP_SUBTREE_CONTROL_FILE = ''cgroup.subtree_control''"

definition path_str :: "path \<Rightarrow> string" where
  \<comment> \<open>\<^verbatim>\<open>str(path)\<close> of an absolute path.\<close>
  "path_str p = (if p = [] then ''/'' else concat (map (\<lambda>c. CHR ''/'' # c) p))"

definition is_controller_supported :: "filesystem \<Rightarrow> path \<Rightarrow> string \<Rightarrow> bool" where
  \<comment> \<open>Modelled from the spec: \<^verbatim>\<open>cgroup.py\<close> is not among the sources. The level's
      \<^verbatim>\<open>cgroup.controllers\<close> lists the controller among its space-separated names. In
      \<^verbatim>\<open>test_cgroup_v2\<close> the current core's directory has no such file and the call
      succeeds, so a level without the file supports nothing.\<close>
  "is_controller_supported fs p controller =
     (case files fs (p @ [CGROUP_CONTROLLERS_FILE]) of
        None \<Rightarrow> False
      | Some text \<Rightarrow> controller \<in> set (split text))"

function nearest_supporting :: "filesystem \<Rightarrow> string \<Rightarrow> path \<Rightarrow> path \<Rightarrow> path option" where
  \<comment> \<open>Modelled from the spec: \<^verbatim>\<open>cgroup.py\<close> is not among the sources. The nearest level
      that supports the controller, from \<open>p\<close> upwards to \<open>root_path\<close> inclusive; a path with
      no parent left ends the walk as the root does.\<close>
  "nearest_supporting fs controller root_path p =
     (if is_controller_supported fs p controller then Some p
      else if p = root_path \<or> p = [] then None
      else nearest_supporting fs controller root_path (butlast p))"
  by pat_completeness auto
termination
  by (relation "measure (\<lambda>(fs, controller, root_path, p). length p)") auto

declare nearest_supporting.simps [simp del]

definition not_supported_message :: "string \<Rightarrow> path \<Rightarrow> string" where
  \<comment> \<open>The message \<^verbatim>\<open>test_cgroup_v2\<close> expects of the failed assertion.\<close>
  "not_supported_message controller root_path =
     ''Controller '' @ [CHR 0x27] @ controller @ [CHR 0x27] @ '' is not supported under ''
       @ path_str root_path"

definition get_subcgroup :: "path \<Rightarrow> path \<Rightarrow> string \<Rightarrow> string \<Rightarrow> filesystem \<Rightarrow> CgroupCore effect" where
  \<comment> \<open>Modelled from the spec: \<^verbatim>\<open>CgroupCoreV2.get_subcgroup\<close> is not among the sources; the
      first two arguments are the core's \<^verbatim>\<open>cgroup_full_path\<close> and \<^verbatim>\<open>root_path\<close>. The walk from
      the current core up to the mount root, the delegation at the level found and the failed
      assertion follow section 4.1 of the spec. The child is created under the level found:
      \<^verbatim>\<open>test_cgroup_v2\<close> and \<^verbatim>\<open>test_cgroup_v2_fallback_to_root\<close> assert that path for a
      core two levels below the root.\<close>
  "get_subcgroup full_path root_path controller new_cgroup_name fs =
     (case nearest_supporting fs controller root_path full_path of
        None \<Rightarrow> (Inl (AssertionError (not_supported_message controller root_path)), fs)
      | Some level \<Rightarrow>
          (case read_text fs (level @ [CGROUP_SUBTREE_CONTROL_FILE]) of
             Inl e \<Rightarrow> (Inl e, fs)
           | Inr delegated \<Rightarrow>
               let fs1 = (if controller \<in> set (split delegated) then fs
                          else write_text fs (level @ [CGROUP_SUBTREE_CONTROL_FILE])
                                 (delegated @ ''+'' @ controller));
                   child = level @ [new_cgroup_name]
               in (Inr (CgroupCoreV2 child root_path), fs1\<lparr>dirs := insert child (dirs fs1)\<rparr>)))"


section \<open>The memory controller\<close>

datatype MemoryController =
    MemoryControllerV1 CgroupCore
  | MemoryControllerV2 CgroupCore

definition get_memory_controller :: "CgroupCore \<Rightarrow> MemoryController" where
  \<comment> \<open>Modelled from the spec: \<^verbatim>\<open>memory_controller.py\<close> is not among the sources. The
      factory selects the variant by \<^verbatim>\<open>is_v1\<close>.\<close>
  "get_memory_controller cgroup_core =
     (if is_v1 cgroup_core then MemoryControllerV1 cgroup_core
      else MemoryControllerV2 cgroup_core)"

fun get_max_usage_in_bytes :: "MemoryController \<Rightarrow> filesystem \<Rightarrow> error + int" where
  \<comment> \<open>Modelled from the spec: \<^verbatim>\<open>memory_controller.py\<close> is not among the sources. V1 reads
      \<^verbatim>\<open>memory.max_usage_in_bytes\<close>; V2 has no such file and fails, with the message
      \<^verbatim>\<open>test_memory_controller_v2\<close> expects.\<close>
  "get_max_usage_in_bytes (MemoryControllerV1 cg) fs =
     and_then (read_from_interface_file cg fs ''memory.max_usage_in_bytes'') int_of_str"
| "get_max_usage_in_bytes (MemoryControllerV2 cg) fs =
     Inl (CgroupInterfaceNotSupported
            ''Interface file max_usage_in_bytes is not supported in cGroup v2'')"


section \<open>The file systems of the tests\<close>

text \<open>
  The directories and files that \<^verbatim>\<open>tests/granulate_utils/test_cgroups.py\<close> sets up before
  it calls the code; the temporary directory of each test is one path component.
\<close>

definition cpu_controller_dir :: path where
  "cpu_controller_dir = [''cpu_controller'']"

definition test_cpu_controller_v1_fs :: filesystem where
  "test_cpu_controller_v1_fs =
     \<lparr>files = [cpu_controller_dir @ [''cpu.cfs_period_us''] \<mapsto> ''100'',
               cpu_controller_dir @ [''cpu.cfs_quota_us''] \<mapsto> ''50'',
               cpu_controller_dir @ [''cpu.stat''] \<mapsto> ''stat_value 1''],
      dirs = {cpu_controller_dir}\<rparr>"

definition test_cpu_controller_v2_fs :: filesystem where
  "test_cpu_controller_v2_fs =
     \<lparr>files = [cpu_controller_dir @ [''cpu.max''] \<mapsto> ''50 100'',
               cpu_controller_dir @ [''cpu.stat''] \<mapsto> ''stat_value 1''],
      dirs = {cpu_controller_dir}\<rparr>"

definition memory_controller_dir :: path where
  "memory_controller_dir = [''memory_controller'']"

definition test_memory_controller_v1_fs :: filesystem where
  "test_memory_controller_v1_fs =
     \<lparr>files = [memory_controller_dir @ [''memory.limit_in_bytes''] \<mapsto> ''128'',
               memory_controller_dir @ [''memory.memsw.limit_in_bytes''] \<mapsto> ''100'',
               memory_controller_dir @ [''memory.max_usage_in_bytes''] \<mapsto> ''400'',
               memory_controller_dir @ [''memory.usage_in_bytes''] \<mapsto> ''500''],
      dirs = {memory_controller_dir}\<rparr>"

definition root_cgroup :: path where "root_cgroup = [''root'']"
definition parent_cgroup :: path where "parent_cgroup = root_cgroup @ [''base_controller'']"
definition current_leaf :: path where "current_leaf = parent_cgroup @ [''leaf'']"

definition test_cgroup_v2_fs :: filesystem where
  "test_cgroup_v2_fs =
     \<lparr>files = [root_cgroup @ [''cgroup.controllers''] \<mapsto> [],
               root_cgroup @ [''cgroup.subtree_control''] \<mapsto> [],
               parent_cgroup @ [''cgroup.controllers''] \<mapsto> ''cpu'',
               parent_cgroup @ [''cgroup.subtree_control''] \<mapsto> []],
      dirs = {root_cgroup, parent_cgroup, current_leaf}\<rparr>"

definition test_cgroup_v2_fallback_to_root_fs :: filesystem where
  "test_cgroup_v2_fallback_to_root_fs =
     \<lparr>files = [root_cgroup @ [''cgroup.controllers''] \<mapsto> ''cpu'',
               root_cgroup @ [''cgroup.subtree_control''] \<mapsto> [],
               parent_cgroup @ [''cgroup.controllers''] \<mapsto> [],
               parent_cgroup @ [''cgroup.subtree_control''] \<mapsto> []],
      dirs = {root_cgroup, parent_cgroup, current_leaf}\<rparr>"


section \<open>Printing and reading integers\<close>

lemma of_char_digit_char: "d < 10 \<Longrightarrow> (of_char (digit_char d) :: nat) = 48 + d"
  by (simp add: digit_char_def)

lemma is_digit_digit_char: "d < 10 \<Longrightarrow> is_digit (digit_char d)"
  by (simp add: is_digit_def of_char_digit_char)

lemma digit_val_digit_char: "d < 10 \<Longrightarrow> digit_val (digit_char d) = d"
  by (simp add: digit_val_def of_char_digit_char)

lemma is_digit_not_space: "is_digit c \<Longrightarrow> \<not> is_space c"
  by (auto simp add: is_digit_def is_space_def Let_def)

lemma is_digit_not_sign: "is_digit c \<Longrightarrow> c \<noteq> CHR ''_'' \<and> c \<noteq> CHR ''-'' \<and> c \<noteq> CHR ''+''"
  by (auto simp add: is_digit_def)

lemma minus_not_space: "\<not> is_space CHR ''-''"
  by (simp add: is_space_def)

lemma str_nat_digits: "c \<in> set (str_nat n) \<Longrightarrow> is_digit c"
proof (induction n arbitrary: c rule: str_nat.induct)
  case (1 n)
  show ?case
  proof (cases "n < 10")
    case True
    with "1.prems" show ?thesis
      by (simp add: str_nat.simps [of n] is_digit_digit_char)
  next
    case False
    with "1.prems" "1.IH" show ?thesis
      by (auto simp add: str_nat.simps [of n] is_digit_digit_char)
  qed
qed

lemma str_nat_nonempty: "str_nat n \<noteq> []"
  by (subst str_nat.simps) simp

lemma digits_ok_all_digits: "ds \<noteq> [] \<Longrightarrow> \<forall>c\<in>set ds. is_digit c \<Longrightarrow> digits_ok ds"
  by (induction ds rule: digits_ok.induct) (auto dest: is_digit_not_sign)

lemma filter_underscore_digits: "\<forall>c\<in>set ds. is_digit c \<Longrightarrow> filter (\<lambda>c. c \<noteq> CHR ''_'') ds = ds"
  by (induction ds) (auto dest: is_digit_not_sign)

lemma foldl_str_nat: "foldl (\<lambda>a c. 10 * a + digit_val c) 0 (str_nat n) = n"
proof (induction n rule: str_nat.induct)
  case (1 n)
  show ?case
  proof (cases "n < 10")
    case True
    then show ?thesis by (simp add: str_nat.simps [of n] digit_val_digit_char)
  next
    case False
    with "1.IH" show ?thesis
      by (simp add: str_nat.simps [of n] digit_val_digit_char)
  qed
qed

lemma digits_value_str_nat: "digits_value (str_nat n) = n"
  using str_nat_digits [of _ n]
  by (simp add: digits_value_def filter_underscore_digits foldl_str_nat)

lemma strip_no_space: "\<forall>c\<in>set s. \<not> is_space c \<Longrightarrow> strip s = s"
proof -
  assume h: "\<forall>c\<in>set s. \<not> is_space c"
  have d: "dropWhile is_space t = t" if "\<forall>c\<in>set t. \<not> is_space c" for t
    using that by (cases t) auto
  have a: "dropWhile is_space s = s" using h by (rule d)
  have b: "dropWhile is_space (rev s) = rev s" by (rule d) (simp add: h)
  show ?thesis by (simp add: strip_def a b)
qed

lemma str_int_no_space: "c \<in> set (str_int i) \<Longrightarrow> \<not> is_space c"
  by (auto simp add: str_int_def minus_not_space dest: str_nat_digits is_digit_not_space split: if_splits)

lemma int_of_str_str_int: "int_of_str (str_int i) = Inr i"
proof (cases "i < 0")
  case True
  have "strip (str_int i) = str_int i"
    by (rule strip_no_space) (blast dest: str_int_no_space)
  moreover have "digits_ok (str_nat (nat (- i)))"
    by (rule digits_ok_all_digits) (auto simp add: str_nat_nonempty dest: str_nat_digits)
  ultimately show ?thesis using True
    by (simp add: int_of_str_def str_int_def digits_value_str_nat)
next
  case False
  have s: "strip (str_int i) = str_int i"
    by (rule strip_no_space) (blast dest: str_int_no_space)
  obtain c cs where cs: "str_nat (nat i) = c # cs"
    using str_nat_nonempty [of "nat i"] by (cases "str_nat (nat i)") auto
  have "is_digit c" using cs str_nat_digits [of c "nat i"] by simp
  then have c: "c \<noteq> CHR ''-''" "c \<noteq> CHR ''+''" using is_digit_not_sign by blast+
  have ok: "digits_ok (c # cs)"
    unfolding cs [symmetric]
    by (rule digits_ok_all_digits) (auto simp add: str_nat_nonempty dest: str_nat_digits)
  have v: "digits_value (c # cs) = nat i"
    unfolding cs [symmetric] by (rule digits_value_str_nat)
  show ?thesis using False s c ok v
    by (simp add: int_of_str_def str_int_def cs)
qed

lemma split_from_no_space:
  "\<forall>c\<in>set a. \<not> is_space c \<Longrightarrow> split_from cur (a @ rest) = split_from (cur @ a) rest"
  by (induction a arbitrary: cur) auto

lemma space_is_space: "is_space CHR '' ''"
  by (simp add: is_space_def)

lemma split_two_fields:
  assumes "a \<noteq> []" "b \<noteq> []" "\<forall>c\<in>set a. \<not> is_space c" "\<forall>c\<in>set b. \<not> is_space c"
  shows "split (a @ '' '' @ b) = [a, b]"
proof -
  have "split (a @ '' '' @ b) = split_from a (CHR '' '' # b)"
    using split_from_no_space [OF assms(3), of "[]" "'' '' @ b"] by (simp add: split_def)
  also have "\<dots> = a # split_from [] b" using assms(1) by (simp add: space_is_space)
  also have "split_from [] b = split_from b []"
    using split_from_no_space [OF assms(4), of "[]" "[]"] by simp
  finally show ?thesis using assms(2) by simp
qed

lemma str_int_nonempty: "str_int i \<noteq> []"
  by (simp add: str_int_def str_nat_nonempty)

lemma str_int_not_max: "str_int i \<noteq> ''max''"
proof
  assume "str_int i = ''max''"
  then have "CHR ''m'' \<in> set (str_int i)" by simp
  then have "is_digit CHR ''m'' \<or> CHR ''m'' = CHR ''-''"
    by (auto simp add: str_int_def dest: str_nat_digits split: if_splits)
  then show False by (simp add: is_digit_def)
qed

lemma convert_outer_then_inner:
  "convert_inner_value_to_outer (convert_outer_value_to_inner v) = Inr v"
  by (simp add: convert_inner_value_to_outer_def convert_outer_value_to_inner_def
      str_int_not_max int_of_str_str_int)

lemma convert_outer_no_space: "c \<in> set (convert_outer_value_to_inner v) \<Longrightarrow> \<not> is_space c"
  by (auto simp add: convert_outer_value_to_inner_def is_space_def dest: str_int_no_space split: if_splits)

lemma convert_outer_nonempty: "convert_outer_value_to_inner v \<noteq> []"
  by (simp add: convert_outer_value_to_inner_def str_int_nonempty)

lemma split_limit_line:
  "split (convert_outer_value_to_inner q @ CHR '' '' # str_int p)
     = [convert_outer_value_to_inner q, str_int p]"
  using split_two_fields [of "convert_outer_value_to_inner q" "str_int p"]
  by (auto simp add: convert_outer_nonempty str_int_nonempty
      dest: convert_outer_no_space str_int_no_space)

lemma read_write_same:
  "read_from_interface_file cg (snd (write_to_interface_file cg name v fs)) name = Inr v"
  by (simp add: read_from_interface_file_def write_to_interface_file_def read_text_def write_text_def)

lemma read_write_other:
  "name' \<noteq> name \<Longrightarrow>
   read_from_interface_file cg (snd (write_to_interface_file cg name v fs)) name'
     = read_from_interface_file cg fs name'"
  by (simp add: read_from_interface_file_def write_to_interface_file_def read_text_def write_text_def)

lemma fst_write: "fst (write_to_interface_file cg name v fs) = Inr ()"
  by (simp add: write_to_interface_file_def)

lemma period_quota_files_differ: "CPU_PERIOD_FILE \<noteq> CPU_QUOTA_FILE"
  by (simp add: CPU_PERIOD_FILE_def CPU_QUOTA_FILE_def)

lemma and_then_eq_Inr: "and_then m f = Inr y \<longleftrightarrow> (\<exists>x. m = Inr x \<and> f x = Inr y)"
  by (cases m) auto

lemma and_then_eq_Inl: "and_then m f = Inl e \<longleftrightarrow> m = Inl e \<or> (\<exists>x. m = Inr x \<and> f x = Inl e)"
  by (cases m) auto

lemma params_period:
  "get_cpu_limit_params c fs = Inr ps \<Longrightarrow> get_cpu_limit_period c fs = Inr (period ps)"
  by (cases c) (auto simp add: and_then_eq_Inr)

lemma params_quota:
  "get_cpu_limit_params c fs = Inr ps \<Longrightarrow> get_cpu_limit_quota c fs = Inr (quota ps)"
  by (cases c) (auto simp add: and_then_eq_Inr)

lemma set_quota_v1_params:
  assumes "get_cpu_limit_period (CpuControllerV1 cg) fs = Inr p"
  shows "get_cpu_limit_params (CpuControllerV1 cg) (snd (set_cpu_limit_quota (CpuControllerV1 cg) q fs))
           = Inr \<lparr>period = p, quota = q\<rparr>"
  using assms
  by (simp add: read_write_same read_write_other period_quota_files_differ int_of_str_str_int)

lemma set_quota_v2_params:
  assumes "get_cpu_limit_period (CpuControllerV2 cg) fs = Inr p"
  shows "get_cpu_limit_params (CpuControllerV2 cg) (snd (set_cpu_limit_quota (CpuControllerV2 cg) q fs))
           = Inr \<lparr>period = p, quota = q\<rparr>"
proof -
  have "set_cpu_limit_quota (CpuControllerV2 cg) q fs =
          write_to_interface_file cg CPU_LIMIT_FILE (convert_outer_value_to_inner q @ '' '' @ str_int p) fs"
    using assms by (simp del: get_cpu_limit_period.simps)
  then show ?thesis
    by (simp add: read_write_same split_limit_line getitem_def int_of_str_str_int
        convert_outer_then_inner del: set_cpu_limit_quota.simps)
qed

lemma set_quota_params:
  assumes "get_cpu_limit_period c fs = Inr p"
  shows "get_cpu_limit_params c (snd (set_cpu_limit_quota c q fs)) = Inr \<lparr>period = p, quota = q\<rparr>"
  using assms by (cases c) (simp_all only: set_quota_v1_params set_quota_v2_params)

lemma set_quota_succeeds:
  assumes "get_cpu_limit_period c fs = Inr p"
  shows "fst (set_cpu_limit_quota c q fs) = Inr ()"
proof (cases c)
  case (CpuControllerV1 cg)
  then show ?thesis by (simp add: fst_write)
next
  case (CpuControllerV2 cg)
  then show ?thesis using assms by (simp add: fst_write del: get_cpu_limit_period.simps)
qed


section \<open>Evaluating binary64 products\<close>

lemma floor_rat_numeral:
  "\<lfloor>(numeral a :: rat) / numeral b\<rfloor> = numeral a div numeral b"
  "\<lfloor>- ((numeral a :: rat) / numeral b)\<rfloor> = - numeral a div numeral b"
  using floor_divide_of_int_eq [of "numeral a" "numeral b", where ?'a = rat]
    floor_divide_of_int_eq [of "- numeral a" "numeral b", where ?'a = rat]
  by simp_all

lemma ceiling_rat_numeral:
  "\<lceil>(numeral a :: rat) / numeral b\<rceil> = - (- numeral a div numeral b)"
  "\<lceil>- ((numeral a :: rat) / numeral b)\<rceil> = - (numeral a div numeral b)"
  unfolding ceiling_def by (simp_all add: floor_rat_numeral)

lemmas float_eval = to_float64_def round64_def floor_log2_def round_half_even_def pow2_def
  bit_length.simps float_of_int_def Let_def floor_rat_numeral ceiling_rat_numeral

lemma float_of_int_100: "float_of_int 100 = Inr (Finite 100)"
  by (simp add: float_eval)

lemma set_cpu_limit_cores_eq:
  assumes "get_cpu_limit_period c fs = Inr p"
    and "float_of_int p = Inr fp"
    and "float_mul fp cores = Finite x"
  shows "set_cpu_limit_cores c cores fs
           = set_cpu_limit_quota c (if 0 \<le> x then \<lfloor>x\<rfloor> else \<lceil>x\<rceil>) fs"
  using assms by (simp add: set_cpu_limit_cores_def)

lemma set_cpu_limit_cores_raises:
  assumes "get_cpu_limit_period c fs = Inr p"
    and "and_then (float_of_int p) (\<lambda>fp. int_of_float (float_mul fp cores)) = Inl e"
  shows "set_cpu_limit_cores c cores fs = (Inl e, fs)"
  using assms by (simp add: set_cpu_limit_cores_def)


section \<open>The CPU tests on the model\<close>

text \<open>
  The product is rounded to binary64 before \<^verbatim>\<open>int()\<close> truncates it: \<^verbatim>\<open>int(10 * 0.7)\<close> is
  7 although ten times the float 0.7 is below 7, and \<^verbatim>\<open>int(100 * 0.29)\<close> is 28. An
  infinite product raises, and so does a period too large for a float.
\<close>

lemma int_of_binary64_product:
  "and_then (float_of_int 10) (\<lambda>fp. int_of_float (float_mul fp (to_float64 (7 / 10)))) = Inr 7
   \<and> to_float64 (7 / 10) = Finite (3152519739159347 / 4503599627370496)
   \<and> and_then (float_of_int 100) (\<lambda>fp. int_of_float (float_mul fp (to_float64 (29 / 100))))
       = Inr 28
   \<and> and_then (float_of_int 100) (\<lambda>fp. int_of_float (float_mul fp PosInf)) = Inl OverflowError
   \<and> and_then (float_of_int 100) (\<lambda>fp. int_of_float (float_mul fp NaN)) = Inl ValueError
   \<and> float_of_int (2 ^ 1024) = Inl OverflowError"
  by (simp add: float_eval)

text \<open>
  \<^verbatim>\<open>test_cpu_controller_v1\<close>: 0.5 cores at first; after \<^verbatim>\<open>set_cpu_limit_cores(3.5)\<close> the
  limit is 3.5 cores and the quota file reads 350; after \<^verbatim>\<open>reset_cpu_limit()\<close> the limit
  is -1 and the quota file reads -1.
\<close>

lemma test_cpu_controller_v1_passes:
  "get_cpu_limit_cores (get_cpu_controller (CgroupCoreV1 cpu_controller_dir))
     test_cpu_controller_v1_fs = Inr (1 / 2)
   \<and> get_cpu_limit_cores (get_cpu_controller (CgroupCoreV1 cpu_controller_dir))
       (snd (set_cpu_limit_cores (get_cpu_controller (CgroupCoreV1 cpu_controller_dir))
          (Finite (7 / 2)) test_cpu_controller_v1_fs)) = Inr (7 / 2)
   \<and> and_then (read_text
         (snd (set_cpu_limit_cores (get_cpu_controller (CgroupCoreV1 cpu_controller_dir))
            (Finite (7 / 2)) test_cpu_controller_v1_fs))
         (cpu_controller_dir @ [''cpu.cfs_quota_us''])) int_of_str = Inr 350
   \<and> get_cpu_limit_cores (get_cpu_controller (CgroupCoreV1 cpu_controller_dir))
       (snd (reset_cpu_limit (get_cpu_controller (CgroupCoreV1 cpu_controller_dir))
          (snd (set_cpu_limit_cores (get_cpu_controller (CgroupCoreV1 cpu_controller_dir))
             (Finite (7 / 2)) test_cpu_controller_v1_fs)))) = Inr (- 1)
   \<and> and_then (read_text
         (snd (reset_cpu_limit (get_cpu_controller (CgroupCoreV1 cpu_controller_dir))
            (snd (set_cpu_limit_cores (get_cpu_controller (CgroupCoreV1 cpu_controller_dir))
               (Finite (7 / 2)) test_cpu_controller_v1_fs))))
         (cpu_controller_dir @ [''cpu.cfs_quota_us''])) int_of_str = Inr (- 1)"
proof -
  have p: "get_cpu_limit_period (get_cpu_controller (CgroupCoreV1 cpu_controller_dir))
             test_cpu_controller_v1_fs = Inr 100"
    by code_simp
  have m: "float_mul (Finite 100) (Finite (7 / 2)) = Finite 350"
    by (simp add: float_eval)
  have eq: "set_cpu_limit_cores (get_cpu_controller (CgroupCoreV1 cpu_controller_dir))
              (Finite (7 / 2)) test_cpu_controller_v1_fs
            = set_cpu_limit_quota (get_cpu_controller (CgroupCoreV1 cpu_controller_dir)) 350
                test_cpu_controller_v1_fs"
    using set_cpu_limit_cores_eq [OF p float_of_int_100 m] by simp
  show ?thesis
    unfolding eq by code_simp
qed

text \<open>
  \<^verbatim>\<open>test_cpu_controller_v2\<close>: 0.5 cores at first; after \<^verbatim>\<open>set_cpu_limit_cores(3.5)\<close>
  \<^verbatim>\<open>cpu.max\<close> reads \<^verbatim>\<open>350 100\<close>; after \<^verbatim>\<open>reset_cpu_limit()\<close> it reads \<^verbatim>\<open>max 100\<close>.
\<close>

lemma test_cpu_controller_v2_passes:
  "get_cpu_limit_cores (get_cpu_controller (CgroupCoreV2 cpu_controller_dir cpu_controller_dir))
     test_cpu_controller_v2_fs = Inr (1 / 2)
   \<and> get_cpu_limit_cores (get_cpu_controller (CgroupCoreV2 cpu_controller_dir cpu_controller_dir))
       (snd (set_cpu_limit_cores
          (get_cpu_controller (CgroupCoreV2 cpu_controller_dir cpu_controller_dir))
          (Finite (7 / 2)) test_cpu_controller_v2_fs)) = Inr (7 / 2)
   \<and> read_text
       (snd (set_cpu_limit_cores
          (get_cpu_controller (CgroupCoreV2 cpu_controller_dir cpu_controller_dir))
          (Finite (7 / 2)) test_cpu_controller_v2_fs))
       (cpu_controller_dir @ [''cpu.max'']) = Inr ''350 100''
   \<and> get_cpu_limit_cores (get_cpu_controller (CgroupCoreV2 cpu_controller_dir cpu_controller_dir))
       (snd (reset_cpu_limit
          (get_cpu_controller (CgroupCoreV2 cpu_controller_dir cpu_controller_dir))
          (snd (set_cpu_limit_cores
             (get_cpu_controller (CgroupCoreV2 cpu_controller_dir cpu_controller_dir))
             (Finite (7 / 2)) test_cpu_controller_v2_fs)))) = Inr (- 1)
   \<and> read_text
       (snd (reset_cpu_limit
          (get_cpu_controller (CgroupCoreV2 cpu_controller_dir cpu_controller_dir))
          (snd (set_cpu_limit_cores
             (get_cpu_controller (CgroupCoreV2 cpu_controller_dir cpu_controller_dir))
             (Finite (7 / 2)) test_cpu_controller_v2_fs))))
       (cpu_controller_dir @ [''cpu.max'']) = Inr ''max 100''"
proof -
  have p: "get_cpu_limit_period
             (get_cpu_controller (CgroupCoreV2 cpu_controller_dir cpu_controller_dir))
             test_cpu_controller_v2_fs = Inr 100"
    by code_simp
  have m: "float_mul (Finite 100) (Finite (7 / 2)) = Finite 350"
    by (simp add: float_eval)
  have eq: "set_cpu_limit_cores
              (get_cpu_controller (CgroupCoreV2 cpu_controller_dir cpu_controller_dir))
              (Finite (7 / 2)) test_cpu_controller_v2_fs
            = set_cpu_limit_quota
                (get_cpu_controller (CgroupCoreV2 cpu_controller_dir cpu_controller_dir)) 350
                test_cpu_controller_v2_fs"
    using set_cpu_limit_cores_eq [OF p float_of_int_100 m] by simp
  show ?thesis
    unfolding eq by code_simp
qed


section \<open>Reading the CPU limit\<close>

text \<open>
  C1. For every cgroup, v1 or v2, whose limit parameters can be read,
  \<^verbatim>\<open>get_cpu_limit_cores()\<close> is \<^verbatim>\<open>quota / period\<close> when the quota is not -1 and exactly
  -1.0 when the quota is -1. In the unbounded case nothing is divided: the result is -1.0
  whatever the period is, zero included.
\<close>

theorem get_cpu_limit_cores_quota_over_period:
  assumes "get_cpu_limit_params (get_cpu_controller cg) fs = Inr ps"
  shows "(quota ps = - 1 \<longrightarrow> get_cpu_limit_cores (get_cpu_controller cg) fs = Inr (- 1))
       \<and> (quota ps \<noteq> - 1 \<longrightarrow>
            get_cpu_limit_cores (get_cpu_controller cg) fs = truediv (quota ps) (period ps))
       \<and> (quota ps \<noteq> - 1 \<and> period ps \<noteq> 0 \<longrightarrow>
            get_cpu_limit_cores (get_cpu_controller cg) fs
              = Inr (of_int (quota ps) / of_int (period ps)))"
  using assms by (simp add: get_cpu_limit_cores_def truediv_def)

text \<open>
  The v1 cgroup of \<^verbatim>\<open>test_cpu_controller_v1\<close> (quota 50, period 100) has 0.5 cores; a v2
  cgroup whose \<^verbatim>\<open>cpu.max\<close> reads \<^verbatim>\<open>max 0\<close> has -1.0 cores, with no division by its period.
\<close>

theorem get_cpu_limit_cores_quota_over_period_witness:
  "get_cpu_limit_params (get_cpu_controller (CgroupCoreV1 cpu_controller_dir)) test_cpu_controller_v1_fs
     = Inr \<lparr>period = 100, quota = 50\<rparr>
   \<and> get_cpu_limit_cores (get_cpu_controller (CgroupCoreV1 cpu_controller_dir)) test_cpu_controller_v1_fs
     = Inr (1 / 2)
   \<and> get_cpu_limit_params (get_cpu_controller (CgroupCoreV2 cpu_controller_dir cpu_controller_dir))
        (test_cpu_controller_v2_fs\<lparr>files := (files test_cpu_controller_v2_fs)
           (cpu_controller_dir @ [''cpu.max''] \<mapsto> ''max 0'')\<rparr>)
     = Inr \<lparr>period = 0, quota = - 1\<rparr>
   \<and> get_cpu_limit_cores (get_cpu_controller (CgroupCoreV2 cpu_controller_dir cpu_controller_dir))
        (test_cpu_controller_v2_fs\<lparr>files := (files test_cpu_controller_v2_fs)
           (cpu_controller_dir @ [''cpu.max''] \<mapsto> ''max 0'')\<rparr>)
     = Inr (- 1)"
proof -
  have a: "get_cpu_limit_params (get_cpu_controller (CgroupCoreV1 cpu_controller_dir))
             test_cpu_controller_v1_fs = Inr \<lparr>period = 100, quota = 50\<rparr>"
    by code_simp
  have b: "get_cpu_limit_params (get_cpu_controller (CgroupCoreV2 cpu_controller_dir cpu_controller_dir))
        (test_cpu_controller_v2_fs\<lparr>files := (files test_cpu_controller_v2_fs)
           (cpu_controller_dir @ [''cpu.max''] \<mapsto> ''max 0'')\<rparr>)
     = Inr \<lparr>period = 0, quota = - 1\<rparr>"
    by code_simp
  show ?thesis
    using a b get_cpu_limit_cores_quota_over_period [OF a] get_cpu_limit_cores_quota_over_period [OF b]
    by (simp add: truediv_def)
qed

text \<open>
  C10. The division is guarded against a quota of -1 only: for every cgroup whose quota
  is not -1 and whose period reads 0, \<^verbatim>\<open>get_cpu_limit_cores()\<close> raises
  \<^verbatim>\<open>ZeroDivisionError\<close> and returns no value.
\<close>

theorem get_cpu_limit_cores_zero_period:
  assumes "get_cpu_limit_params (get_cpu_controller cg) fs = Inr ps"
    and "quota ps \<noteq> - 1" and "period ps = 0"
  shows "get_cpu_limit_cores (get_cpu_controller cg) fs = Inl ZeroDivisionError"
  using assms by (simp add: get_cpu_limit_cores_def truediv_def)

text \<open>
  The cgroups of the CPU tests with their period set to 0: quota 50 over period 0 fails
  in both variants.
\<close>

theorem get_cpu_limit_cores_zero_period_witness:
  "get_cpu_limit_params (get_cpu_controller (CgroupCoreV1 cpu_controller_dir))
     (test_cpu_controller_v1_fs\<lparr>files := (files test_cpu_controller_v1_fs)
        (cpu_controller_dir @ [''cpu.cfs_period_us''] \<mapsto> ''0'')\<rparr>)
     = Inr \<lparr>period = 0, quota = 50\<rparr>
   \<and> get_cpu_limit_cores (get_cpu_controller (CgroupCoreV1 cpu_controller_dir))
     (test_cpu_controller_v1_fs\<lparr>files := (files test_cpu_controller_v1_fs)
        (cpu_controller_dir @ [''cpu.cfs_period_us''] \<mapsto> ''0'')\<rparr>)
     = Inl ZeroDivisionError
   \<and> get_cpu_limit_params (get_cpu_controller (CgroupCoreV2 cpu_controller_dir cpu_controller_dir))
     (test_cpu_controller_v2_fs\<lparr>files := (files test_cpu_controller_v2_fs)
        (cpu_controller_dir @ [''cpu.max''] \<mapsto> ''50 0'')\<rparr>)
     = Inr \<lparr>period = 0, quota = 50\<rparr>
   \<and> get_cpu_limit_cores (get_cpu_controller (CgroupCoreV2 cpu_controller_dir cpu_controller_dir))
     (test_cpu_controller_v2_fs\<lparr>files := (files test_cpu_controller_v2_fs)
        (cpu_controller_dir @ [''cpu.max''] \<mapsto> ''50 0'')\<rparr>)
     = Inl ZeroDivisionError"
proof -
  have a: "get_cpu_limit_params (get_cpu_controller (CgroupCoreV1 cpu_controller_dir))
     (test_cpu_controller_v1_fs\<lparr>files := (files test_cpu_controller_v1_fs)
        (cpu_controller_dir @ [''cpu.cfs_period_us''] \<mapsto> ''0'')\<rparr>)
     = Inr \<lparr>period = 0, quota = 50\<rparr>"
    by code_simp
  have b: "get_cpu_limit_params (get_cpu_controller (CgroupCoreV2 cpu_controller_dir cpu_controller_dir))
     (test_cpu_controller_v2_fs\<lparr>files := (files test_cpu_controller_v2_fs)
        (cpu_controller_dir @ [''cpu.max''] \<mapsto> ''50 0'')\<rparr>)
     = Inr \<lparr>period = 0, quota = 50\<rparr>"
    by code_simp
  show ?thesis
    using a b get_cpu_limit_cores_zero_period [OF a] get_cpu_limit_cores_zero_period [OF b]
    by simp
qed


section \<open>Setting the CPU limit\<close>

text \<open>
  C4. For every period \<open>p\<close> other than 0 and every quota \<open>q\<close> other than -1, in both
  variants: on a cgroup whose period reads \<open>p\<close>, \<^verbatim>\<open>set_cpu_limit_quota(q)\<close> succeeds and
  \<^verbatim>\<open>get_cpu_limit_cores()\<close> then returns exactly \<open>q / p\<close>.
\<close>

theorem set_cpu_limit_quota_then_cores:
  assumes "get_cpu_limit_period (get_cpu_controller cg) fs = Inr p"
    and "p \<noteq> 0" and "q \<noteq> - 1"
  shows "fst (set_cpu_limit_quota (get_cpu_controller cg) q fs) = Inr ()
       \<and> get_cpu_limit_cores (get_cpu_controller cg)
             (snd (set_cpu_limit_quota (get_cpu_controller cg) q fs))
           = Inr (of_int q / of_int p)"
  using assms set_quota_succeeds [OF assms(1), of q] set_quota_params [OF assms(1), of q]
  by (simp add: get_cpu_limit_cores_def truediv_def)

text \<open>On the v2 cgroup of \<^verbatim>\<open>test_cpu_controller_v2\<close> (period 100), quota 350 reads back as 3.5 cores.\<close>

theorem set_cpu_limit_quota_then_cores_witness:
  "get_cpu_limit_period (get_cpu_controller (CgroupCoreV2 cpu_controller_dir cpu_controller_dir))
     test_cpu_controller_v2_fs = Inr 100
   \<and> fst (set_cpu_limit_quota (get_cpu_controller (CgroupCoreV2 cpu_controller_dir cpu_controller_dir))
          350 test_cpu_controller_v2_fs) = Inr ()
   \<and> get_cpu_limit_cores (get_cpu_controller (CgroupCoreV2 cpu_controller_dir cpu_controller_dir))
       (snd (set_cpu_limit_quota (get_cpu_controller (CgroupCoreV2 cpu_controller_dir cpu_controller_dir))
          350 test_cpu_controller_v2_fs)) = Inr (7 / 2)"
proof -
  have a: "get_cpu_limit_period (get_cpu_controller (CgroupCoreV2 cpu_controller_dir cpu_controller_dir))
     test_cpu_controller_v2_fs = Inr 100"
    by code_simp
  show ?thesis
    using a set_cpu_limit_quota_then_cores [OF a, of 350] by simp
qed

text \<open>
  C2, as the code has it. \<^verbatim>\<open>set_cpu_limit_cores(c)\<close> reads the period \<open>p\<close> from the file
  system it is called on and sets the quota to \<^verbatim>\<open>int(p * c)\<close>, where \<^verbatim>\<open>p * c\<close> is the
  binary64 product \<open>x\<close> and \<^verbatim>\<open>int\<close> drops its fraction towards zero; this is \<open>\<lfloor>x\<rfloor>\<close>
  whenever the product is not negative. For such \<open>c\<close> and \<open>p\<close> other than 0,
  \<^verbatim>\<open>get_cpu_limit_cores()\<close> then returns \<open>\<lfloor>x\<rfloor> / p\<close>.
\<close>

theorem set_cpu_limit_cores_truncates:
  assumes "get_cpu_limit_period (get_cpu_controller cg) fs = Inr p"
    and "float_of_int p = Inr fp"
    and "float_mul fp cores = Finite x"
  shows "set_cpu_limit_cores (get_cpu_controller cg) cores fs
           = set_cpu_limit_quota (get_cpu_controller cg) (if 0 \<le> x then \<lfloor>x\<rfloor> else \<lceil>x\<rceil>) fs
       \<and> fst (set_cpu_limit_cores (get_cpu_controller cg) cores fs) = Inr ()
       \<and> get_cpu_limit_period (get_cpu_controller cg)
             (snd (set_cpu_limit_cores (get_cpu_controller cg) cores fs)) = Inr p
       \<and> get_cpu_limit_quota (get_cpu_controller cg)
             (snd (set_cpu_limit_cores (get_cpu_controller cg) cores fs))
           = Inr (if 0 \<le> x then \<lfloor>x\<rfloor> else \<lceil>x\<rceil>)
       \<and> (0 \<le> x \<longrightarrow>
            get_cpu_limit_quota (get_cpu_controller cg)
                (snd (set_cpu_limit_cores (get_cpu_controller cg) cores fs))
              = Inr \<lfloor>x\<rfloor>)
       \<and> (0 \<le> x \<and> p \<noteq> 0 \<longrightarrow>
            get_cpu_limit_cores (get_cpu_controller cg)
                (snd (set_cpu_limit_cores (get_cpu_controller cg) cores fs))
              = Inr (of_int \<lfloor>x\<rfloor> / of_int p))"
proof -
  let ?c = "get_cpu_controller cg"
  let ?q = "if 0 \<le> x then \<lfloor>x\<rfloor> else \<lceil>x\<rceil>"
  have eq: "set_cpu_limit_cores ?c cores fs = set_cpu_limit_quota ?c ?q fs"
    using assms by (rule set_cpu_limit_cores_eq)
  have ps: "get_cpu_limit_params ?c (snd (set_cpu_limit_quota ?c ?q fs))
              = Inr \<lparr>period = p, quota = ?q\<rparr>"
    using assms(1) by (rule set_quota_params)
  have ok: "fst (set_cpu_limit_quota ?c ?q fs) = Inr ()"
    using assms(1) by (rule set_quota_succeeds)
  have nonneg: "?q = \<lfloor>x\<rfloor> \<and> ?q \<noteq> - 1" if "0 \<le> x"
  proof -
    have f1: "?q = \<lfloor>x\<rfloor>"
      using that by simp
    have "0 \<le> \<lfloor>x\<rfloor>"
      using that by simp
    then have f2: "\<lfloor>x\<rfloor> \<noteq> - 1"
      by linarith
    show ?thesis using f1 f2 by simp
  qed
  show ?thesis
    unfolding eq
    using ok params_period [OF ps] params_quota [OF ps] ps nonneg
    by (auto simp add: get_cpu_limit_cores_def truediv_def)
qed

text \<open>
  The examples of the spec on the v1 cgroup of \<^verbatim>\<open>test_cpu_controller_v1\<close> (period 100):
  3.5 cores give quota 350 and read back as 3.5; the float 0.505 times 100 is 50.5 and
  gives quota 50, not 51.
\<close>

theorem set_cpu_limit_cores_truncates_witness:
  "get_cpu_limit_period (get_cpu_controller (CgroupCoreV1 cpu_controller_dir))
     test_cpu_controller_v1_fs = Inr 100
   \<and> float_of_int 100 = Inr (Finite 100)
   \<and> float_mul (Finite 100) (Finite (7 / 2)) = Finite 350
   \<and> float_mul (Finite 100) (to_float64 (505 / 1000)) = Finite (101 / 2)
   \<and> get_cpu_limit_quota (get_cpu_controller (CgroupCoreV1 cpu_controller_dir))
       (snd (set_cpu_limit_cores (get_cpu_controller (CgroupCoreV1 cpu_controller_dir))
          (Finite (7 / 2)) test_cpu_controller_v1_fs)) = Inr 350
   \<and> get_cpu_limit_cores (get_cpu_controller (CgroupCoreV1 cpu_controller_dir))
       (snd (set_cpu_limit_cores (get_cpu_controller (CgroupCoreV1 cpu_controller_dir))
          (Finite (7 / 2)) test_cpu_controller_v1_fs)) = Inr (7 / 2)
   \<and> get_cpu_limit_quota (get_cpu_controller (CgroupCoreV1 cpu_controller_dir))
       (snd (set_cpu_limit_cores (get_cpu_controller (CgroupCoreV1 cpu_controller_dir))
          (to_float64 (505 / 1000)) test_cpu_controller_v1_fs)) = Inr 50"
proof -
  have a: "get_cpu_limit_period (get_cpu_controller (CgroupCoreV1 cpu_controller_dir))
     test_cpu_controller_v1_fs = Inr 100"
    by code_simp
  have b: "float_of_int 100 = Inr (Finite 100)"
    by (simp add: float_eval)
  have c: "float_mul (Finite 100) (Finite (7 / 2)) = Finite 350"
    by (simp add: float_eval)
  have d: "float_mul (Finite 100) (to_float64 (505 / 1000)) = Finite (101 / 2)"
    by (simp add: float_eval)
  have e: "\<lfloor>101 / 2 :: rat\<rfloor> = 50"
    by (simp add: floor_rat_numeral)
  show ?thesis
    using a b c d set_cpu_limit_cores_truncates [OF a b c, THEN conjunct2]
      set_cpu_limit_cores_truncates [OF a b d, THEN conjunct2]
    by (simp add: e)
qed

text \<open>
  C2 as the spec states it, with \<open>\<lfloor>p * c\<rfloor>\<close> for every \<open>c\<close>, fails below zero: on the same
  cgroup (period 100) the float -0.505 times 100 is -50.5, the quota is set to -50, and
  \<open>\<lfloor>-50.5\<rfloor>\<close> is -51.
\<close>

theorem set_cpu_limit_cores_floor_counterexample:
  "get_cpu_limit_period (get_cpu_controller (CgroupCoreV1 cpu_controller_dir))
     test_cpu_controller_v1_fs = Inr 100
   \<and> float_of_int 100 = Inr (Finite 100)
   \<and> float_mul (Finite 100) (to_float64 (- 505 / 1000)) = Finite (- 101 / 2)
   \<and> get_cpu_limit_quota (get_cpu_controller (CgroupCoreV1 cpu_controller_dir))
       (snd (set_cpu_limit_cores (get_cpu_controller (CgroupCoreV1 cpu_controller_dir))
          (to_float64 (- 505 / 1000)) test_cpu_controller_v1_fs)) = Inr (- 50)
   \<and> \<lfloor>- 101 / 2 :: rat\<rfloor> = - 51
   \<and> get_cpu_limit_quota (get_cpu_controller (CgroupCoreV1 cpu_controller_dir))
       (snd (set_cpu_limit_cores (get_cpu_controller (CgroupCoreV1 cpu_controller_dir))
          (to_float64 (- 505 / 1000)) test_cpu_controller_v1_fs))
     \<noteq> Inr \<lfloor>- 101 / 2 :: rat\<rfloor>"
proof -
  have a: "get_cpu_limit_period (get_cpu_controller (CgroupCoreV1 cpu_controller_dir))
     test_cpu_controller_v1_fs = Inr 100"
    by code_simp
  have c: "float_mul (Finite 100) (to_float64 (- 505 / 1000)) = Finite (- 101 / 2)"
    by (simp add: float_eval)
  have eq: "set_cpu_limit_cores (get_cpu_controller (CgroupCoreV1 cpu_controller_dir))
              (to_float64 (- 505 / 1000)) test_cpu_controller_v1_fs
            = set_cpu_limit_quota (get_cpu_controller (CgroupCoreV1 cpu_controller_dir)) (- 50)
                test_cpu_controller_v1_fs"
    using set_cpu_limit_cores_eq [OF a float_of_int_100 c] by (simp add: ceiling_rat_numeral)
  have q: "get_cpu_limit_quota (get_cpu_controller (CgroupCoreV1 cpu_controller_dir))
       (snd (set_cpu_limit_quota (get_cpu_controller (CgroupCoreV1 cpu_controller_dir)) (- 50)
          test_cpu_controller_v1_fs)) = Inr (- 50)"
    by code_simp
  have fl: "\<lfloor>- 101 / 2 :: rat\<rfloor> = - 51"
    by (simp add: floor_rat_numeral)
  show ?thesis
    unfolding eq using a c q fl by (simp add: float_of_int_100)
qed

text \<open>
  C5. \<^verbatim>\<open>reset_cpu_limit()\<close> is \<^verbatim>\<open>set_cpu_limit_quota(-1)\<close> in both variants. On a cgroup
  whose period can be read it succeeds, \<^verbatim>\<open>get_cpu_limit_cores()\<close> then returns -1.0, and the
  quota reads \<^verbatim>\<open>-1\<close> in \<^verbatim>\<open>cpu.cfs_quota_us\<close> under v1 and \<^verbatim>\<open>max\<close> as the first field of
  \<^verbatim>\<open>cpu.max\<close> under v2.
\<close>

theorem reset_cpu_limit_unbounded:
  assumes "get_cpu_limit_period (get_cpu_controller cg) fs = Inr p"
  shows "reset_cpu_limit (get_cpu_controller cg) fs
           = set_cpu_limit_quota (get_cpu_controller cg) (- 1) fs
       \<and> fst (reset_cpu_limit (get_cpu_controller cg) fs) = Inr ()
       \<and> get_cpu_limit_cores (get_cpu_controller cg)
             (snd (reset_cpu_limit (get_cpu_controller cg) fs)) = Inr (- 1)
       \<and> (is_v1 cg \<longrightarrow>
            read_from_interface_file cg (snd (reset_cpu_limit (get_cpu_controller cg) fs))
              CPU_QUOTA_FILE = Inr ''-1'')
       \<and> (\<not> is_v1 cg \<longrightarrow>
            read_from_interface_file cg (snd (reset_cpu_limit (get_cpu_controller cg) fs))
              CPU_LIMIT_FILE = Inr (''max '' @ str_int p)
            \<and> getitem (split (''max '' @ str_int p)) 0 = Inr ''max'')"
proof -
  let ?c = "get_cpu_controller cg"
  have ps: "get_cpu_limit_params ?c (snd (set_cpu_limit_quota ?c (- 1) fs))
              = Inr \<lparr>period = p, quota = - 1\<rparr>"
    using assms by (rule set_quota_params)
  have ok: "fst (set_cpu_limit_quota ?c (- 1) fs) = Inr ()"
    using assms by (rule set_quota_succeeds)
  have cores: "get_cpu_limit_cores ?c (snd (set_cpu_limit_quota ?c (- 1) fs)) = Inr (- 1)"
    using ps by (simp add: get_cpu_limit_cores_def)
  have minus_one: "str_int (- 1) = ''-1''"
    by code_simp
  have v1: "read_from_interface_file cg (snd (set_cpu_limit_quota ?c (- 1) fs)) CPU_QUOTA_FILE
              = Inr ''-1''" if "is_v1 cg"
    using that by (simp add: get_cpu_controller_def read_write_same minus_one)
  have line: "split (''max '' @ str_int p) = [''max'', str_int p]"
    using split_limit_line [of "- 1" p] by (simp add: convert_outer_value_to_inner_def)
  have v2: "read_from_interface_file cg (snd (set_cpu_limit_quota ?c (- 1) fs)) CPU_LIMIT_FILE
              = Inr (''max '' @ str_int p)" if "\<not> is_v1 cg"
  proof -
    have "get_cpu_limit_period (CpuControllerV2 cg) fs = Inr p"
      using assms that by (simp add: get_cpu_controller_def)
    then have "set_cpu_limit_quota (CpuControllerV2 cg) (- 1) fs
            = write_to_interface_file cg CPU_LIMIT_FILE (''max '' @ str_int p) fs"
      by (simp add: convert_outer_value_to_inner_def del: get_cpu_limit_period.simps)
    then show ?thesis
      using that by (simp add: get_cpu_controller_def read_write_same del: set_cpu_limit_quota.simps)
  qed
  show ?thesis
    unfolding reset_cpu_limit_def
    using ok cores v1 v2 line by (simp add: getitem_def)
qed

text \<open>
  The resets of \<^verbatim>\<open>test_cpu_controller_v1\<close> and \<^verbatim>\<open>test_cpu_controller_v2\<close>: the quota file
  reads \<^verbatim>\<open>-1\<close>, and \<^verbatim>\<open>cpu.max\<close> reads \<^verbatim>\<open>max 100\<close>.
\<close>

theorem reset_cpu_limit_unbounded_witness:
  "get_cpu_limit_period (get_cpu_controller (CgroupCoreV1 cpu_controller_dir))
     test_cpu_controller_v1_fs = Inr 100
   \<and> get_cpu_limit_cores (get_cpu_controller (CgroupCoreV1 cpu_controller_dir))
       (snd (reset_cpu_limit (get_cpu_controller (CgroupCoreV1 cpu_controller_dir))
          test_cpu_controller_v1_fs)) = Inr (- 1)
   \<and> read_from_interface_file (CgroupCoreV1 cpu_controller_dir)
       (snd (reset_cpu_limit (get_cpu_controller (CgroupCoreV1 cpu_controller_dir))
          test_cpu_controller_v1_fs)) CPU_QUOTA_FILE = Inr ''-1''
   \<and> get_cpu_limit_period (get_cpu_controller (CgroupCoreV2 cpu_controller_dir cpu_controller_dir))
     test_cpu_controller_v2_fs = Inr 100
   \<and> get_cpu_limit_cores (get_cpu_controller (CgroupCoreV2 cpu_controller_dir cpu_controller_dir))
       (snd (reset_cpu_limit (get_cpu_controller (CgroupCoreV2 cpu_controller_dir cpu_controller_dir))
          test_cpu_controller_v2_fs)) = Inr (- 1)
   \<and> read_from_interface_file (CgroupCoreV2 cpu_controller_dir cpu_controller_dir)
       (snd (reset_cpu_limit (get_cpu_controller (CgroupCoreV2 cpu_controller_dir cpu_controller_dir))
          test_cpu_controller_v2_fs)) CPU_LIMIT_FILE = Inr ''max 100''"
proof -
  have a: "get_cpu_limit_period (get_cpu_controller (CgroupCoreV1 cpu_controller_dir))
     test_cpu_controller_v1_fs = Inr 100"
    by code_simp
  have b: "get_cpu_limit_period (get_cpu_controller (CgroupCoreV2 cpu_controller_dir cpu_controller_dir))
     test_cpu_controller_v2_fs = Inr 100"
    by code_simp
  have c: "str_int 100 = ''100''"
    by code_simp
  show ?thesis
    using a b reset_cpu_limit_unbounded [OF a, THEN conjunct2]
      reset_cpu_limit_unbounded [OF b, THEN conjunct2]
    by (simp add: c)
qed

text \<open>
  C7. \<^verbatim>\<open>set_cpu_limit_quota(q)\<close> changes the quota and leaves the period as it is. The v1
  variant writes \<^verbatim>\<open>cpu.cfs_quota_us\<close> and no other file, so \<^verbatim>\<open>cpu.cfs_period_us\<close> is
  untouched. The v2 variant reads the period from \<^verbatim>\<open>cpu.max\<close> first, raising before any
  write when that fails, and writes that same period back as the second field after the
  new quota; no other file changes.
\<close>

theorem set_cpu_limit_quota_keeps_period:
  "fst (set_cpu_limit_quota (get_cpu_controller (CgroupCoreV1 dir)) q fs) = Inr ()
   \<and> files (snd (set_cpu_limit_quota (get_cpu_controller (CgroupCoreV1 dir)) q fs))
       = (files fs)(dir @ [CPU_QUOTA_FILE] \<mapsto> str_int q)
   \<and> dirs (snd (set_cpu_limit_quota (get_cpu_controller (CgroupCoreV1 dir)) q fs)) = dirs fs
   \<and> files (snd (set_cpu_limit_quota (get_cpu_controller (CgroupCoreV1 dir)) q fs))
         (dir @ [CPU_PERIOD_FILE])
       = files fs (dir @ [CPU_PERIOD_FILE])
   \<and> get_cpu_limit_period (get_cpu_controller (CgroupCoreV1 dir))
         (snd (set_cpu_limit_quota (get_cpu_controller (CgroupCoreV1 dir)) q fs))
       = get_cpu_limit_period (get_cpu_controller (CgroupCoreV1 dir)) fs
   \<and> (get_cpu_limit_period (get_cpu_controller (CgroupCoreV2 dir mount)) fs = Inr p \<longrightarrow>
        fst (set_cpu_limit_quota (get_cpu_controller (CgroupCoreV2 dir mount)) q fs) = Inr ()
        \<and> files (snd (set_cpu_limit_quota (get_cpu_controller (CgroupCoreV2 dir mount)) q fs))
            = (files fs)(dir @ [CPU_LIMIT_FILE] \<mapsto>
                 convert_outer_value_to_inner q @ '' '' @ str_int p)
        \<and> dirs (snd (set_cpu_limit_quota (get_cpu_controller (CgroupCoreV2 dir mount)) q fs))
            = dirs fs
        \<and> get_cpu_limit_period (get_cpu_controller (CgroupCoreV2 dir mount))
              (snd (set_cpu_limit_quota (get_cpu_controller (CgroupCoreV2 dir mount)) q fs))
            = Inr p
        \<and> get_cpu_limit_quota (get_cpu_controller (CgroupCoreV2 dir mount))
              (snd (set_cpu_limit_quota (get_cpu_controller (CgroupCoreV2 dir mount)) q fs))
            = Inr q)
   \<and> (get_cpu_limit_period (get_cpu_controller (CgroupCoreV2 dir mount)) fs = Inl e \<longrightarrow>
        set_cpu_limit_quota (get_cpu_controller (CgroupCoreV2 dir mount)) q fs = (Inl e, fs))"
proof -
  let ?v1 = "CpuControllerV1 (CgroupCoreV1 dir)"
  let ?v2 = "CpuControllerV2 (CgroupCoreV2 dir mount)"
  have c1: "get_cpu_controller (CgroupCoreV1 dir) = ?v1"
    and c2: "get_cpu_controller (CgroupCoreV2 dir mount) = ?v2"
    by (simp_all add: get_cpu_controller_def)
  have w1: "set_cpu_limit_quota ?v1 q fs
              = (Inr (), fs\<lparr>files := (files fs)(dir @ [CPU_QUOTA_FILE] \<mapsto> str_int q)\<rparr>)"
    by (simp add: write_to_interface_file_def write_text_def)
  have p1: "get_cpu_limit_period ?v1 (snd (set_cpu_limit_quota ?v1 q fs))
              = get_cpu_limit_period ?v1 fs"
    by (simp add: read_write_other period_quota_files_differ)
  have part1: "fst (set_cpu_limit_quota ?v1 q fs) = Inr ()
      \<and> files (snd (set_cpu_limit_quota ?v1 q fs))
          = (files fs)(dir @ [CPU_QUOTA_FILE] \<mapsto> str_int q)
      \<and> dirs (snd (set_cpu_limit_quota ?v1 q fs)) = dirs fs
      \<and> files (snd (set_cpu_limit_quota ?v1 q fs)) (dir @ [CPU_PERIOD_FILE])
          = files fs (dir @ [CPU_PERIOD_FILE])"
    unfolding w1 by (simp add: period_quota_files_differ)
  have part2: "fst (set_cpu_limit_quota ?v2 q fs) = Inr ()
      \<and> files (snd (set_cpu_limit_quota ?v2 q fs))
          = (files fs)(dir @ [CPU_LIMIT_FILE] \<mapsto> convert_outer_value_to_inner q @ '' '' @ str_int p)
      \<and> dirs (snd (set_cpu_limit_quota ?v2 q fs)) = dirs fs
      \<and> get_cpu_limit_period ?v2 (snd (set_cpu_limit_quota ?v2 q fs)) = Inr p
      \<and> get_cpu_limit_quota ?v2 (snd (set_cpu_limit_quota ?v2 q fs)) = Inr q"
    if h: "get_cpu_limit_period ?v2 fs = Inr p"
  proof -
    have w2: "set_cpu_limit_quota ?v2 q fs
          = (Inr (), fs\<lparr>files := (files fs)(dir @ [CPU_LIMIT_FILE] \<mapsto>
                convert_outer_value_to_inner q @ '' '' @ str_int p)\<rparr>)"
      using h by (simp add: write_to_interface_file_def write_text_def
          del: get_cpu_limit_period.simps)
    have ps: "get_cpu_limit_params ?v2 (snd (set_cpu_limit_quota ?v2 q fs))
                = Inr \<lparr>period = p, quota = q\<rparr>"
      using h by (rule set_quota_params)
    show ?thesis
      using params_period [OF ps] params_quota [OF ps]
      by (simp add: w2 del: get_cpu_limit_period.simps get_cpu_limit_quota.simps
          set_cpu_limit_quota.simps)
  qed
  have part3: "set_cpu_limit_quota ?v2 q fs = (Inl e, fs)"
    if "get_cpu_limit_period ?v2 fs = Inl e"
    using that by (simp del: get_cpu_limit_period.simps)
  show ?thesis
    unfolding c1 c2 using part1 p1 part2 part3 by blast
qed

text \<open>
  On the v2 cgroup of \<^verbatim>\<open>test_cpu_controller_v2\<close>, whose \<^verbatim>\<open>cpu.max\<close> reads \<^verbatim>\<open>50 100\<close>,
  quota 350 leaves \<^verbatim>\<open>350 100\<close>; without \<^verbatim>\<open>cpu.max\<close> the call fails and writes nothing.
\<close>

theorem set_cpu_limit_quota_keeps_period_witness:
  "get_cpu_limit_period (get_cpu_controller (CgroupCoreV2 cpu_controller_dir cpu_controller_dir))
     test_cpu_controller_v2_fs = Inr 100
   \<and> files (snd (set_cpu_limit_quota
         (get_cpu_controller (CgroupCoreV2 cpu_controller_dir cpu_controller_dir)) 350
         test_cpu_controller_v2_fs))
       = (files test_cpu_controller_v2_fs)(cpu_controller_dir @ [CPU_LIMIT_FILE] \<mapsto> ''350 100'')
   \<and> get_cpu_limit_period (get_cpu_controller (CgroupCoreV2 cpu_controller_dir cpu_controller_dir))
       (snd (set_cpu_limit_quota
         (get_cpu_controller (CgroupCoreV2 cpu_controller_dir cpu_controller_dir)) 350
         test_cpu_controller_v2_fs)) = Inr 100
   \<and> get_cpu_limit_period (get_cpu_controller (CgroupCoreV2 cpu_controller_dir cpu_controller_dir))
       test_cpu_controller_v1_fs = Inl FileNotFoundError
   \<and> set_cpu_limit_quota (get_cpu_controller (CgroupCoreV2 cpu_controller_dir cpu_controller_dir))
       350 test_cpu_controller_v1_fs = (Inl FileNotFoundError, test_cpu_controller_v1_fs)"
proof -
  have a: "get_cpu_limit_period (get_cpu_controller (CgroupCoreV2 cpu_controller_dir cpu_controller_dir))
     test_cpu_controller_v2_fs = Inr 100"
    by code_simp
  have b: "get_cpu_limit_period (get_cpu_controller (CgroupCoreV2 cpu_controller_dir cpu_controller_dir))
       test_cpu_controller_v1_fs = Inl FileNotFoundError"
    by code_simp
  have c: "convert_outer_value_to_inner 350 @ '' '' @ str_int 100 = ''350 100''"
    by code_simp
  show ?thesis
    using a b c
      set_cpu_limit_quota_keeps_period [of cpu_controller_dir 350 test_cpu_controller_v2_fs
        cpu_controller_dir 100 FileNotFoundError]
      set_cpu_limit_quota_keeps_period [of cpu_controller_dir 350 test_cpu_controller_v1_fs
        cpu_controller_dir 100 FileNotFoundError]
    by simp
qed


section \<open>Unit conversion of the unified hierarchy\<close>

text \<open>
  C6. For a v2 core the conversion pair is a round trip. The literal \<^verbatim>\<open>max\<close> is read as -1
  and -1 is printed as \<^verbatim>\<open>max\<close>; printing an integer and reading it back gives the same
  integer; and reading an inner value and printing it back gives the same string for every
  inner value of a limit file, that is for \<^verbatim>\<open>max\<close> and for the decimal \<^verbatim>\<open>str(n)\<close> of an
  integer \<open>n\<close> other than -1, the non-negative limits among them.
\<close>

theorem convert_round_trip:
  "convert_inner_value_to_outer ''max'' = Inr (- 1)
   \<and> convert_outer_value_to_inner (- 1) = ''max''
   \<and> convert_inner_value_to_outer (convert_outer_value_to_inner v) = Inr v
   \<and> (x = ''max'' \<or> (\<exists>n. n \<noteq> - 1 \<and> x = str_int n) \<longrightarrow> inner_round_trip x = Inr x)"
proof -
  have "inner_round_trip ''max'' = Inr ''max''"
    by (simp add: inner_round_trip_def convert_inner_value_to_outer_def
        convert_outer_value_to_inner_def)
  moreover have "inner_round_trip (str_int n) = Inr (str_int n)" if "n \<noteq> - 1" for n
    using that
    by (simp add: inner_round_trip_def convert_inner_value_to_outer_def
        convert_outer_value_to_inner_def str_int_not_max int_of_str_str_int)
  moreover have "convert_inner_value_to_outer ''max'' = Inr (- 1)"
    by (simp add: convert_inner_value_to_outer_def)
  moreover have "convert_outer_value_to_inner (- 1) = ''max''"
    by (simp add: convert_outer_value_to_inner_def)
  ultimately show ?thesis
    using convert_outer_then_inner [of v] by blast
qed

text \<open>
  The quota fields of \<^verbatim>\<open>test_cpu_controller_v2\<close>: \<^verbatim>\<open>350\<close> is \<^verbatim>\<open>str(350)\<close> and makes the
  round trip through 350, and \<^verbatim>\<open>max\<close> makes it through -1.
\<close>

theorem convert_round_trip_witness:
  "(\<exists>n. n \<noteq> - 1 \<and> ''350'' = str_int n)
   \<and> convert_inner_value_to_outer ''350'' = Inr 350
   \<and> inner_round_trip ''350'' = Inr ''350''
   \<and> inner_round_trip ''max'' = Inr ''max''"
proof -
  have a: "''350'' = str_int 350"
    by code_simp
  then have b: "\<exists>n. n \<noteq> - 1 \<and> ''350'' = str_int n"
    by (intro exI [of _ 350]) simp
  have c: "convert_inner_value_to_outer ''350'' = Inr 350"
    by code_simp
  show ?thesis
    using b c convert_round_trip [of 350 "''350''"] convert_round_trip [of 350 "''max''"]
    by blast
qed


section \<open>Peak memory usage\<close>

text \<open>
  C8. For every v2 cgroup and every state of the file system \<^verbatim>\<open>get_max_usage_in_bytes()\<close>
  raises \<^verbatim>\<open>CgroupInterfaceNotSupported\<close> and returns no value, so no sentinel either. The
  v1 variant reads \<^verbatim>\<open>memory.max_usage_in_bytes\<close> as an integer: a file holding \<^verbatim>\<open>str(n)\<close>
  gives \<open>n\<close>.
\<close>

theorem get_max_usage_in_bytes_v2_unsupported:
  "get_max_usage_in_bytes (get_memory_controller (CgroupCoreV2 dir mount)) fs
     = Inl (CgroupInterfaceNotSupported
              ''Interface file max_usage_in_bytes is not supported in cGroup v2'')
   \<and> (\<forall>v. get_max_usage_in_bytes (get_memory_controller (CgroupCoreV2 dir mount)) fs \<noteq> Inr v)
   \<and> get_max_usage_in_bytes (get_memory_controller (CgroupCoreV1 dir)) fs
       = and_then (read_from_interface_file (CgroupCoreV1 dir) fs ''memory.max_usage_in_bytes'')
           int_of_str
   \<and> (read_from_interface_file (CgroupCoreV1 dir) fs ''memory.max_usage_in_bytes''
         = Inr (str_int n) \<longrightarrow>
       get_max_usage_in_bytes (get_memory_controller (CgroupCoreV1 dir)) fs = Inr n)"
  by (simp add: get_memory_controller_def int_of_str_str_int)

text \<open>
  The peak usage of \<^verbatim>\<open>test_memory_controller_v1\<close> is 400; the v2 controller fails on the
  same files.
\<close>

theorem get_max_usage_in_bytes_v2_unsupported_witness:
  "read_from_interface_file (CgroupCoreV1 memory_controller_dir) test_memory_controller_v1_fs
       ''memory.max_usage_in_bytes'' = Inr (str_int 400)
   \<and> get_max_usage_in_bytes (get_memory_controller (CgroupCoreV1 memory_controller_dir))
       test_memory_controller_v1_fs = Inr 400
   \<and> get_max_usage_in_bytes
         (get_memory_controller (CgroupCoreV2 memory_controller_dir memory_controller_dir))
         test_memory_controller_v1_fs
       = Inl (CgroupInterfaceNotSupported
                ''Interface file max_usage_in_bytes is not supported in cGroup v2'')"
proof -
  have a: "read_from_interface_file (CgroupCoreV1 memory_controller_dir)
       test_memory_controller_v1_fs ''memory.max_usage_in_bytes'' = Inr (str_int 400)"
    by code_simp
  show ?thesis
    using a get_max_usage_in_bytes_v2_unsupported
      [of memory_controller_dir memory_controller_dir test_memory_controller_v1_fs 400]
    by (simp add: int_of_str_str_int)
qed


section \<open>Delegation when a sub-cgroup is derived\<close>

lemma nearest_supporting_found:
  assumes "j \<le> length rel"
    and "is_controller_supported fs (mount @ take j rel) controller"
    and "\<forall>k\<in>{j<..length rel}. \<not> is_controller_supported fs (mount @ take k rel) controller"
  shows "nearest_supporting fs controller mount (mount @ rel) = Some (mount @ take j rel)"
  using assms
proof (induction rel rule: rev_induct)
  case Nil
  then show ?case
    by (simp add: nearest_supporting.simps [of fs controller mount mount])
next
  case (snoc x xs)
  show ?case
  proof (cases "j = Suc (length xs)")
    case True
    with snoc.prems(2) show ?thesis
      by (simp add: nearest_supporting.simps [of fs controller mount "mount @ xs @ [x]"])
  next
    case False
    with snoc.prems(1) have j: "j \<le> length xs" by simp
    have top: "\<not> is_controller_supported fs (mount @ xs @ [x]) controller"
      using snoc.prems(3) j by (auto dest: bspec [of _ _ "Suc (length xs)"])
    have below: "\<forall>k\<in>{j<..length xs}. \<not> is_controller_supported fs (mount @ take k xs) controller"
    proof
      fix k
      assume k: "k \<in> {j<..length xs}"
      then have "k \<in> {j<..length (xs @ [x])}" by simp
      with snoc.prems(3)
      have "\<not> is_controller_supported fs (mount @ take k (xs @ [x])) controller" by blast
      with k show "\<not> is_controller_supported fs (mount @ take k xs) controller" by simp
    qed
    have here: "is_controller_supported fs (mount @ take j xs) controller"
      using snoc.prems(2) j by simp
    have "nearest_supporting fs controller mount (mount @ xs @ [x])
            = nearest_supporting fs controller mount (mount @ xs)"
      using top
      by (simp add: nearest_supporting.simps [of fs controller mount "mount @ xs @ [x]"]
          butlast_append)
    also have "\<dots> = Some (mount @ take j xs)"
      using snoc.IH [OF j here below] .
    finally show ?thesis using j by simp
  qed
qed

lemma nearest_supporting_none:
  assumes "\<forall>k\<in>{0..length rel}. \<not> is_controller_supported fs (mount @ take k rel) controller"
  shows "nearest_supporting fs controller mount (mount @ rel) = None"
  using assms
proof (induction rel rule: rev_induct)
  case Nil
  then show ?case
    by (simp add: nearest_supporting.simps [of fs controller mount mount])
next
  case (snoc x xs)
  have top: "\<not> is_controller_supported fs (mount @ xs @ [x]) controller"
    using snoc.prems by (auto dest: bspec [of _ _ "Suc (length xs)"])
  have below: "\<forall>k\<in>{0..length xs}. \<not> is_controller_supported fs (mount @ take k xs) controller"
  proof
    fix k
    assume k: "k \<in> {0..length xs}"
    then have "k \<in> {0..length (xs @ [x])}" by simp
    with snoc.prems
    have "\<not> is_controller_supported fs (mount @ take k (xs @ [x])) controller" by blast
    with k show "\<not> is_controller_supported fs (mount @ take k xs) controller" by simp
  qed
  have "nearest_supporting fs controller mount (mount @ xs @ [x])
          = nearest_supporting fs controller mount (mount @ xs)"
    using top
    by (simp add: nearest_supporting.simps [of fs controller mount "mount @ xs @ [x]"]
        butlast_append)
  then show ?case
    using snoc.IH [OF below] by simp
qed

text \<open>
  The first call of \<^verbatim>\<open>test_cgroup_v2\<close>: the parent of the current core lists \<^verbatim>\<open>cpu\<close>, the
  child is \<^verbatim>\<open>parent_cgroup / "sub_cgroup"\<close> and the parent's \<^verbatim>\<open>cgroup.subtree_control\<close>
  reads \<^verbatim>\<open>+cpu\<close>, as the test asserts.
\<close>

lemma test_cgroup_v2_first_call:
  "fst (get_subcgroup current_leaf root_cgroup ''cpu'' ''sub_cgroup'' test_cgroup_v2_fs)
     = Inr (CgroupCoreV2 (parent_cgroup @ [''sub_cgroup'']) root_cgroup)
   \<and> and_then (read_text
         (snd (get_subcgroup current_leaf root_cgroup ''cpu'' ''sub_cgroup'' test_cgroup_v2_fs))
         (parent_cgroup @ [''cgroup.subtree_control''])) (\<lambda>text. Inr (strip text))
     = Inr ''+cpu''"
  by code_simp

text \<open>
  C3, as the tests have it. For a v2 core below a mount root that alone lists the
  controller (no level from the core up to the root's children does), and whose root does
  not delegate the controller yet, \<^verbatim>\<open>get_subcgroup(controller, name)\<close> appends
  \<^verbatim>\<open>+controller\<close> to the root's \<^verbatim>\<open>cgroup.subtree_control\<close>, leaves every other file as it
  is, the \<^verbatim>\<open>cgroup.subtree_control\<close> of the levels in between included, and creates the
  child directly under the mount root, which is not under the current core's path.
\<close>

theorem get_subcgroup_falls_back_to_root:
  assumes "is_controller_supported fs mount controller"
    and "\<forall>k\<in>{0<..length rel}. \<not> is_controller_supported fs (mount @ take k rel) controller"
    and "read_text fs (mount @ [CGROUP_SUBTREE_CONTROL_FILE]) = Inr delegated"
    and "controller \<notin> set (split delegated)"
  shows "get_subcgroup (mount @ rel) mount controller name fs
           = (Inr (CgroupCoreV2 (mount @ [name]) mount),
              fs\<lparr>files := (files fs)(mount @ [CGROUP_SUBTREE_CONTROL_FILE] \<mapsto>
                                delegated @ ''+'' @ controller),
                 dirs := insert (mount @ [name]) (dirs fs)\<rparr>)
       \<and> (\<forall>k\<in>{0<..length rel}.
             files (snd (get_subcgroup (mount @ rel) mount controller name fs))
                 (mount @ take k rel @ [CGROUP_SUBTREE_CONTROL_FILE])
               = files fs (mount @ take k rel @ [CGROUP_SUBTREE_CONTROL_FILE]))
       \<and> (rel \<noteq> [] \<longrightarrow> mount @ [name] \<noteq> mount @ rel @ [name])"
proof -
  have found: "nearest_supporting fs controller mount (mount @ rel) = Some mount"
    using nearest_supporting_found [of 0 rel fs mount controller] assms(1,2) by simp
  have result: "get_subcgroup (mount @ rel) mount controller name fs
           = (Inr (CgroupCoreV2 (mount @ [name]) mount),
              fs\<lparr>files := (files fs)(mount @ [CGROUP_SUBTREE_CONTROL_FILE] \<mapsto>
                                delegated @ ''+'' @ controller),
                 dirs := insert (mount @ [name]) (dirs fs)\<rparr>)"
    using assms(3,4) by (simp add: get_subcgroup_def found write_text_def Let_def)
  have between: "take k rel \<noteq> []" if "k \<in> {0<..length rel}" for k
    using that by (cases rel) auto
  show ?thesis
    unfolding result using between by auto
qed

text \<open>
  \<^verbatim>\<open>test_cgroup_v2_fallback_to_root\<close>: from \<^verbatim>\<open>root/base_controller/leaf\<close>, with \<^verbatim>\<open>cpu\<close> listed
  at the root only, the child is \<^verbatim>\<open>root_cgroup / "sub_cgroup"\<close> and the root's
  \<^verbatim>\<open>cgroup.subtree_control\<close> reads \<^verbatim>\<open>+cpu\<close>.
\<close>

theorem get_subcgroup_falls_back_to_root_witness:
  "is_controller_supported test_cgroup_v2_fallback_to_root_fs root_cgroup ''cpu''
   \<and> \<not> is_controller_supported test_cgroup_v2_fallback_to_root_fs
         (root_cgroup @ take 1 [''base_controller'', ''leaf'']) ''cpu''
   \<and> \<not> is_controller_supported test_cgroup_v2_fallback_to_root_fs
         (root_cgroup @ take 2 [''base_controller'', ''leaf'']) ''cpu''
   \<and> read_text test_cgroup_v2_fallback_to_root_fs (root_cgroup @ [CGROUP_SUBTREE_CONTROL_FILE])
       = Inr []
   \<and> ''cpu'' \<notin> set (split [])
   \<and> fst (get_subcgroup (root_cgroup @ [''base_controller'', ''leaf'']) root_cgroup ''cpu''
            ''sub_cgroup'' test_cgroup_v2_fallback_to_root_fs)
       = Inr (CgroupCoreV2 (root_cgroup @ [''sub_cgroup'']) root_cgroup)
   \<and> files (snd (get_subcgroup (root_cgroup @ [''base_controller'', ''leaf'']) root_cgroup
                    ''cpu'' ''sub_cgroup'' test_cgroup_v2_fallback_to_root_fs))
         (root_cgroup @ [CGROUP_SUBTREE_CONTROL_FILE])
       = Some ''+cpu''"
proof -
  have a: "is_controller_supported test_cgroup_v2_fallback_to_root_fs root_cgroup ''cpu''"
    by code_simp
  have b1: "\<not> is_controller_supported test_cgroup_v2_fallback_to_root_fs
             (root_cgroup @ take 1 [''base_controller'', ''leaf'']) ''cpu''"
    by code_simp
  have b2: "\<not> is_controller_supported test_cgroup_v2_fallback_to_root_fs
             (root_cgroup @ take 2 [''base_controller'', ''leaf'']) ''cpu''"
    by code_simp
  have b: "\<forall>k\<in>{0<..length [''base_controller'', ''leaf'']}.
         \<not> is_controller_supported test_cgroup_v2_fallback_to_root_fs
             (root_cgroup @ take k [''base_controller'', ''leaf'']) ''cpu''"
  proof
    fix k :: nat
    assume "k \<in> {0<..length [''base_controller'', ''leaf'']}"
    then have "k = 1 \<or> k = 2" by auto
    then show "\<not> is_controller_supported test_cgroup_v2_fallback_to_root_fs
             (root_cgroup @ take k [''base_controller'', ''leaf'']) ''cpu''"
      using b1 b2 by blast
  qed
  have c: "read_text test_cgroup_v2_fallback_to_root_fs (root_cgroup @ [CGROUP_SUBTREE_CONTROL_FILE])
       = Inr []"
    by code_simp
  have d: "''cpu'' \<notin> set (split [])"
    by code_simp
  show ?thesis
    using a b1 b2 c d
      get_subcgroup_falls_back_to_root [OF a b c d, of "''sub_cgroup''", THEN conjunct1]
    by simp
qed

text \<open>
  C3 as the spec states it puts the child under the current core's path. In
  \<^verbatim>\<open>test_cgroup_v2_fallback_to_root\<close> the current core is \<^verbatim>\<open>root/base_controller/leaf\<close> and
  the core returned is \<^verbatim>\<open>root/sub_cgroup\<close>; no directory is created under the leaf.
\<close>

theorem get_subcgroup_child_under_core_counterexample:
  "fst (get_subcgroup current_leaf root_cgroup ''cpu'' ''sub_cgroup''
          test_cgroup_v2_fallback_to_root_fs)
     = Inr (CgroupCoreV2 (root_cgroup @ [''sub_cgroup'']) root_cgroup)
   \<and> root_cgroup @ [''sub_cgroup''] \<noteq> current_leaf @ [''sub_cgroup'']
   \<and> current_leaf @ [''sub_cgroup'']
       \<notin> dirs (snd (get_subcgroup current_leaf root_cgroup ''cpu'' ''sub_cgroup''
                       test_cgroup_v2_fallback_to_root_fs))"
  by code_simp

text \<open>
  C9. If no level from the current core up to and including the mount root lists the
  controller in its \<^verbatim>\<open>cgroup.controllers\<close>, \<^verbatim>\<open>get_subcgroup(controller, name)\<close> fails its
  assertion with a message that names the controller and the root path, and leaves the
  file system as it was: no directory is created and nothing is delegated.
\<close>

theorem get_subcgroup_unsupported_controller:
  assumes "\<forall>k\<in>{0..length rel}. \<not> is_controller_supported fs (mount @ take k rel) controller"
  shows "get_subcgroup (mount @ rel) mount controller name fs
           = (Inl (AssertionError
                     (''Controller '' @ [CHR 0x27] @ controller @ [CHR 0x27]
                        @ '' is not supported under '' @ path_str mount)),
              fs)"
  using nearest_supporting_none [OF assms]
  by (simp add: get_subcgroup_def not_supported_message_def)

text \<open>
  The second call of \<^verbatim>\<open>test_cgroup_v2\<close>, after the first one has delegated \<^verbatim>\<open>cpu\<close>: no
  level lists \<^verbatim>\<open>memory\<close>, and the message is the one the test compares with.
\<close>

theorem get_subcgroup_unsupported_controller_witness:
  "\<not> is_controller_supported
       (snd (get_subcgroup current_leaf root_cgroup ''cpu'' ''sub_cgroup'' test_cgroup_v2_fs))
       (root_cgroup @ take 0 [''base_controller'', ''leaf'']) ''memory''
   \<and> \<not> is_controller_supported
       (snd (get_subcgroup current_leaf root_cgroup ''cpu'' ''sub_cgroup'' test_cgroup_v2_fs))
       (root_cgroup @ take 1 [''base_controller'', ''leaf'']) ''memory''
   \<and> \<not> is_controller_supported
       (snd (get_subcgroup current_leaf root_cgroup ''cpu'' ''sub_cgroup'' test_cgroup_v2_fs))
       (root_cgroup @ take 2 [''base_controller'', ''leaf'']) ''memory''
   \<and> get_subcgroup (root_cgroup @ [''base_controller'', ''leaf'']) root_cgroup ''memory''
         ''sub_cgroup''
         (snd (get_subcgroup current_leaf root_cgroup ''cpu'' ''sub_cgroup'' test_cgroup_v2_fs))
       = (Inl (AssertionError
                 (''Controller '' @ [CHR 0x27] @ ''memory'' @ [CHR 0x27]
                    @ '' is not supported under /root'')),
          snd (get_subcgroup current_leaf root_cgroup ''cpu'' ''sub_cgroup'' test_cgroup_v2_fs))"
proof -
  have a0: "\<not> is_controller_supported
           (snd (get_subcgroup current_leaf root_cgroup ''cpu'' ''sub_cgroup'' test_cgroup_v2_fs))
           (root_cgroup @ take 0 [''base_controller'', ''leaf'']) ''memory''"
    by code_simp
  have a1: "\<not> is_controller_supported
           (snd (get_subcgroup current_leaf root_cgroup ''cpu'' ''sub_cgroup'' test_cgroup_v2_fs))
           (root_cgroup @ take 1 [''base_controller'', ''leaf'']) ''memory''"
    by code_simp
  have a2: "\<not> is_controller_supported
           (snd (get_subcgroup current_leaf root_cgroup ''cpu'' ''sub_cgroup'' test_cgroup_v2_fs))
           (root_cgroup @ take 2 [''base_controller'', ''leaf'']) ''memory''"
    by code_simp
  have a: "\<forall>k\<in>{0..length [''base_controller'', ''leaf'']}.
       \<not> is_controller_supported
           (snd (get_subcgroup current_leaf root_cgroup ''cpu'' ''sub_cgroup'' test_cgroup_v2_fs))
           (root_cgroup @ take k [''base_controller'', ''leaf'']) ''memory''"
  proof
    fix k :: nat
    assume "k \<in> {0..length [''base_controller'', ''leaf'']}"
    then have "k = 0 \<or> k = 1 \<or> k = 2" by auto
    then show "\<not> is_controller_supported
           (snd (get_subcgroup current_leaf root_cgroup ''cpu'' ''sub_cgroup'' test_cgroup_v2_fs))
           (root_cgroup @ take k [''base_controller'', ''leaf'']) ''memory''"
      using a0 a1 a2 by blast
  qed
  have b: "path_str root_cgroup = ''/root''"
    by code_simp
  show ?thesis
    using a0 a1 a2 get_subcgroup_unsupported_controller [OF a, of "''sub_cgroup''"]
    by (simp add: b)
qed

end
